theory Spec2Isabelle
  imports Complex_Main
begin

section \<open>Data model of the hook \<open>useWhisperModels\<close> (src/hooks/use-whisper-model.ts)\<close>

text \<open>
  The hook keeps seven pieces of React state and offers four actions
  (\<open>downloadModel\<close>, \<open>initializeWhisperModel\<close>, \<open>resetWhisperContext\<close>, \<open>deleteModel\<close>)
  plus a scan of the model directory that runs on mount.  Everything it does to the
  outside goes through three collaborators that are not part of the repository:
  the file system (\<open>expo-file-system\<close>), the resumable download of
  \<open>expo-file-system/legacy\<close>, and the native module \<open>whisper.rn\<close>.

  The embedding is sequential: one action runs from start to end on the state it was
  called in.  What a collaborator answers is an input of the model (the record \<open>env\<close>),
  every call made to a collaborator is appended to a trace, and every exception of the
  source is an \<open>Inl\<close> result.
\<close>

type_synonym exn = string

record Capabilities =
  multilingual :: bool
  quantizable :: bool
  tdrz :: "bool option"

text \<open>The field \<open>id\<close> of the source is \<open>id_m\<close> here, \<open>size\<close> is \<open>size_f\<close>.\<close>

record WhisperModel =
  id_m :: string
  label :: string
  url :: string
  filename :: string
  capabilities :: Capabilities

record ModelFileInfo =
  path :: string
  size_f :: int

definition WHISPER_MODELS :: "WhisperModel list" where
  "WHISPER_MODELS =
    [\<lparr>id_m = ''large-v3-turbo'', label = ''Large Multilanguae'',
      url = ''https://huggingface.co/ggerganov/whisper.cpp/resolve/main/ggml-large-v3-turbo.bin'',
      filename = ''ggml-large-v3-turbo.bin'',
      capabilities = \<lparr>multilingual = True, quantizable = False, tdrz = None\<rparr>\<rparr>,
     \<lparr>id_m = ''tiny-en'', label = ''Tiny (en)'',
      url = ''https://huggingface.co/ggerganov/whisper.cpp/resolve/main/ggml-tiny.en.bin'',
      filename = ''ggml-tiny.en.bin'',
      capabilities = \<lparr>multilingual = False, quantizable = False, tdrz = None\<rparr>\<rparr>,
     \<lparr>id_m = ''base'', label = ''Base Model'',
      url = ''https://huggingface.co/ggerganov/whisper.cpp/resolve/main/ggml-base.bin'',
      filename = ''ggml-base.bin'',
      capabilities = \<lparr>multilingual = True, quantizable = False, tdrz = None\<rparr>\<rparr>,
     \<lparr>id_m = ''small'', label = ''Small Model'',
      url = ''https://huggingface.co/ggerganov/whisper.cpp/resolve/main/ggml-small.bin'',
      filename = ''ggml-small.bin'',
      capabilities = \<lparr>multilingual = True, quantizable = False, tdrz = None\<rparr>\<rparr>,
     \<lparr>id_m = ''small-tdrz'', label = ''Small (tdrz)'',
      url = ''https://huggingface.co/ggerganov/whisper.cpp/resolve/main/ggml-small.en-tdrz.bin'',
      filename = ''ggml-small.en-tdrz.bin'',
      capabilities = \<lparr>multilingual = False, quantizable = False, tdrz = Some True\<rparr>\<rparr>]"

text \<open>
  A native context is an opaque handle.  The source only ever asks whether it has a
  \<open>release\<close> member (\<open>whisperContext?.release\<close>) and calls it.
\<close>

record WhisperContext =
  handle :: nat
  has_release :: bool

type_synonym VadContext = nat

text \<open>The state of the hook, one field per \<open>useState\<close>.\<close>

record manager =
  modelFiles :: "string \<rightharpoonup> ModelFileInfo"
  downloadProgress :: "string \<rightharpoonup> real"
  isDownloading :: bool
  isInitializingModel :: bool
  whisperContext :: "WhisperContext option"
  vadContext :: "VadContext option"
  currentModelId :: "string option"

definition initialState :: manager where
  "initialState =
     \<lparr>modelFiles = Map.empty, downloadProgress = Map.empty, isDownloading = False,
      isInitializingModel = False, whisperContext = None, vadContext = None,
      currentModelId = None\<rparr>"

text \<open>
  The errors the hook raises itself, by the message of the \<open>Error\<close> it constructs, and
  \<open>PlatformError\<close> for an exception of a collaborator that the hook rethrows unchanged.
\<close>

datatype error =
    DocumentDirectoryNotAvailable
  | DownloadFailedWithStatus "int option"
  | InvalidModelSelected
  | NativeModuleNotAvailable
  | PlatformError exn

section \<open>The collaborators\<close>

datatype document_outcome =
    DocumentThrows exn
  | DocumentUndefined
  | DocumentDirectory "string option"

datatype info_outcome =
    InfoThrows exn
  | Info bool "int option"

datatype download_outcome =
    DownloadRejects exn
  | DownloadUndefined
  | DownloadStatus int

datatype init_outcome =
    InitThrows exn
  | InitOk WhisperContext

datatype vad_outcome =
    VadThrows exn
  | VadOk VadContext

record native_module =
  initWhisper :: "init_outcome option"
  initWhisperVad :: "vad_outcome option"

datatype import_outcome =
    ImportThrows exn
  | ImportUndefined
  | ImportModule native_module

text \<open>
  What the collaborators answer during one action:
  \<^item> \<open>document\<close>: reading \<open>Paths.document\<close> throws, gives nothing, or gives a directory
    whose \<open>uri\<close> may be missing;
  \<^item> \<open>has_create\<close>: \<open>typeof directory.create === "function"\<close>; \<open>create_fault\<close>: the
    exception \<open>directory.create\<close> throws for a reason of its own, if any;
  \<^item> \<open>info_existing\<close>: the answer to the \<open>file.info()\<close> that fills \<open>existingInfo\<close>;
    \<open>info_stats\<close>: the answer to the \<open>file.info()\<close> inside \<open>updateModelFileInfo\<close>;
  \<^item> \<open>progress_ticks\<close>: the pairs (totalBytesWritten, totalBytesExpectedToWrite) the
    download reports, in order; \<open>download_result\<close>: how \<open>downloadAsync\<close> ends;
  \<^item> \<open>native_import\<close>: what \<open>import("whisper.rn/index.js")\<close> gives; the module's
    \<open>initWhisper\<close> throws or resolves to a context (its type, \<open>Promise<WhisperContext>\<close>,
    has no \<open>null\<close>), its \<open>initWhisperVad\<close> may be missing;
  \<^item> \<open>delete_info\<close>, \<open>delete_fault\<close>: the answers to \<open>file.info()\<close> and
    \<open>file.delete()\<close> in \<open>deleteModel\<close>; \<open>release_fault\<close>: the exception \<open>release()\<close>
    throws, if any;
  \<^item> \<open>scan_info\<close>: the answer to \<open>file.info()\<close> for each file of the scan on mount.
\<close>

record env =
  document :: document_outcome
  has_create :: bool
  create_fault :: "exn option"
  info_existing :: info_outcome
  info_stats :: info_outcome
  progress_ticks :: "(int \<times> int) list"
  download_result :: download_outcome
  native_import :: import_outcome
  delete_info :: info_outcome
  delete_fault :: "exn option"
  release_fault :: "exn option"
  scan_info :: "string \<Rightarrow> info_outcome"

text \<open>
  The calls made to the collaborators, and the progress fractions handed to
  \<open>setDownloadProgress\<close>, in the order the source makes them.
\<close>

datatype event =
    PathsDocument
  | DirectoryCreate string
  | FileInfo string
  | DownloadAsync string string
  | ProgressPublished string real
  | FileDelete string
  | ImportNative
  | InitWhisper string
  | InitWhisperVad string
  | Release nat

text \<open>
  What the hook writes with \<open>console.warn\<close> and \<open>console.error\<close>, by the fixed part
  of the message.  The informative \<open>console.log\<close> lines are left out.
\<close>

datatype logged =
    Warn string
  | Error string

record world =
  dirs :: "string set"
  trace :: "event list"
  console :: "logged list"

definition emit :: "event \<Rightarrow> world \<Rightarrow> world" where
  "emit e w = w\<lparr>trace := trace w @ [e]\<rparr>"

definition report :: "logged \<Rightarrow> world \<Rightarrow> world" where
  "report l w = w\<lparr>console := console w @ [l]\<rparr>"

text \<open>
  \<open>new Directory(parent, name)\<close> and \<open>new File(directory, name)\<close> join a uri and a
  name.  The join is the platform's; it is taken to put a slash between the two.
\<close>

definition joinUri :: "string \<Rightarrow> string \<Rightarrow> string" where
  "joinUri base name = base @ ''/'' @ name"

text \<open>
  \<open>Directory.create(options)\<close> of expo-file-system, as its documentation describes the
  two options the hook passes: with \<open>idempotent\<close> an existing directory is not an error,
  with \<open>intermediates\<close> a missing parent is created too.
\<close>

definition directory_create ::
  "env \<Rightarrow> bool \<Rightarrow> bool \<Rightarrow> string \<Rightarrow> string \<Rightarrow> world \<Rightarrow> exn + world" where
  "directory_create e idempotent intermediates parent uri w =
     (case create_fault e of
        Some x \<Rightarrow> Inl x
      | None \<Rightarrow>
          if uri \<in> dirs w then
            (if idempotent then Inr w else Inl ''Directory already exists'')
          else if parent \<notin> dirs w \<and> \<not> intermediates then
            Inl ''Parent directory does not exist''
          else Inr (w\<lparr>dirs := insert uri (insert parent (dirs w))\<rparr>))"

section \<open>getModelDirectory\<close>

text \<open>
  Lines 112-139.  \<open>!documentDirectory?.uri\<close> is true for a missing directory, a missing
  uri and the empty string.  The directory is returned as its uri.
\<close>

definition getModelDirectory :: "env \<Rightarrow> world \<Rightarrow> (error + string) \<times> world" where
  "getModelDirectory e w =
     (let w1 = emit PathsDocument w in
      case document e of
        DocumentThrows x \<Rightarrow> (Inl DocumentDirectoryNotAvailable, w1)
      | DocumentUndefined \<Rightarrow> (Inl DocumentDirectoryNotAvailable, w1)
      | DocumentDirectory None \<Rightarrow> (Inl DocumentDirectoryNotAvailable, w1)
      | DocumentDirectory (Some rootUri) \<Rightarrow>
          if rootUri = [] then (Inl DocumentDirectoryNotAvailable, w1)
          else
            let directory = joinUri rootUri ''whisper-models'' in
            if has_create e then
              (let w2 = emit (DirectoryCreate directory) w1 in
               case directory_create e True True rootUri directory w2 of
                 Inl x \<Rightarrow>
                   (Inl (PlatformError x),
                    report (Warn ''Failed to ensure Whisper model directory exists:'') w2)
               | Inr w3 \<Rightarrow> (Inr directory, w3))
            else (Inr directory, w1))"

section \<open>downloadModel\<close>

text \<open>
  \<open>Number(stats.size) || 0\<close>: a missing size is \<open>NaN\<close>, which \<open>||\<close> replaces by 0.
\<close>

definition sizeOrZero :: "int option \<Rightarrow> int" where
  "sizeOrZero s = (case s of None \<Rightarrow> 0 | Some n \<Rightarrow> n)"

text \<open>
  Lines 148-172.  Both branches store an entry under the model's id; the \<open>catch\<close>
  branch, reached when the stat throws or reports no file, stores size 0.
\<close>

definition updateModelFileInfo ::
  "env \<Rightarrow> WhisperModel \<Rightarrow> string \<Rightarrow> manager \<times> world \<Rightarrow> manager \<times> world" where
  "updateModelFileInfo e model fileUri sw =
     (let st = fst sw; w1 = emit (FileInfo fileUri) (snd sw) in
      case info_stats e of
        Info True sz \<Rightarrow>
          (st\<lparr>modelFiles := (modelFiles st)(id_m model \<mapsto>
                 \<lparr>path = fileUri, size_f = sizeOrZero sz\<rparr>)\<rparr>, w1)
      | _ \<Rightarrow>
          (st\<lparr>modelFiles := (modelFiles st)(id_m model \<mapsto>
                 \<lparr>path = fileUri, size_f = 0\<rparr>)\<rparr>,
           report (Warn ''Failed to stat model file'') w1))"

text \<open>Lines 199-214: the progress callback for one tick.\<close>

definition fraction :: "int \<times> int \<Rightarrow> real" where
  "fraction t =
     (let totalBytesWritten = fst t; totalBytesExpectedToWrite = snd t in
      if totalBytesExpectedToWrite > 0
      then real_of_int totalBytesWritten / real_of_int totalBytesExpectedToWrite
      else 0)"

definition progressCallback ::
  "WhisperModel \<Rightarrow> manager \<times> world \<Rightarrow> int \<times> int \<Rightarrow> manager \<times> world" where
  "progressCallback model sw t =
     (let st = fst sw in
      (st\<lparr>downloadProgress := (downloadProgress st)(id_m model \<mapsto> fraction t)\<rparr>,
       emit (ProgressPublished (id_m model) (fraction t)) (snd sw)))"

text \<open>Lines 221-225: the test on the result of \<open>downloadAsync\<close>.\<close>

definition statusOk :: "int \<Rightarrow> bool" where
  "statusOk status = (status = 0 \<or> (status \<ge> 200 \<and> status < 300))"

text \<open>
  Lines 175-184: \<open>existingInfo.exists\<close>; a stat that throws counts as no file.
\<close>

definition existingInfo_exists :: "env \<Rightarrow> bool" where
  "existingInfo_exists e =
     (case info_existing e of InfoThrows x \<Rightarrow> False | Info ex sz \<Rightarrow> ex)"

text \<open>
  Lines 142-243.  The \<open>finally\<close> clears \<open>isDownloading\<close> on every way out of the
  \<open>try\<close>; the two early ways out before it (no directory, file already there) never
  set the flag.
\<close>

definition downloadModel ::
  "env \<Rightarrow> WhisperModel \<Rightarrow> manager \<times> world \<Rightarrow> (error + string) \<times> manager \<times> world" where
  "downloadModel e model sw =
     (let st = fst sw in
      case getModelDirectory e (snd sw) of
        (Inl err, w1) \<Rightarrow> (Inl err, st, w1)
      | (Inr directory, w1) \<Rightarrow>
          let fileUri = joinUri directory (filename model);
              w2 = (case info_existing e of
                      InfoThrows x \<Rightarrow>
                        report (Warn ''Failed to read info for model'')
                          (emit (FileInfo fileUri) w1)
                    | Info ex sz \<Rightarrow> emit (FileInfo fileUri) w1);
              existingInfo = existingInfo_exists e
          in
          if existingInfo then
            (let sw3 = updateModelFileInfo e model fileUri (st, w2)
             in (Inr fileUri, fst sw3, snd sw3))
          else
            let st3 = st\<lparr>isDownloading := True\<rparr>;
                w3 = emit (DownloadAsync (url model) fileUri) w2;
                sw4 = foldl (progressCallback model) (st3, w3) (progress_ticks e)
            in
            (case download_result e of
              DownloadRejects x \<Rightarrow>
                (Inl (PlatformError x), (fst sw4)\<lparr>isDownloading := False\<rparr>,
                 report (Error ''Error downloading model'') (snd sw4))
            | DownloadUndefined \<Rightarrow>
                (Inl (DownloadFailedWithStatus None),
                 (fst sw4)\<lparr>isDownloading := False\<rparr>,
                 report (Error ''Error downloading model'') (snd sw4))
            | DownloadStatus status \<Rightarrow>
                if statusOk status then
                  (let sw5 = updateModelFileInfo e model fileUri sw4;
                       st6 = (fst sw5)\<lparr>downloadProgress :=
                               (downloadProgress (fst sw5))(id_m model \<mapsto> 1)\<rparr>;
                       w6 = emit (ProgressPublished (id_m model) 1) (snd sw5)
                   in (Inr fileUri, st6\<lparr>isDownloading := False\<rparr>, w6))
                else
                  (Inl (DownloadFailedWithStatus (Some status)),
                   (fst sw4)\<lparr>isDownloading := False\<rparr>,
                   report (Error ''Error downloading model'') (snd sw4))))"

section \<open>initializeWhisperModel and resetWhisperContext\<close>

text \<open>
  Lines 78-93.  The loader gives the module only when the import succeeded and the
  module exports a function \<open>initWhisper\<close>; every other case ends in the \<open>catch\<close> and
  gives \<open>null\<close>.
\<close>

definition loadWhisperNative :: "env \<Rightarrow> world \<Rightarrow> native_module option \<times> world" where
  "loadWhisperNative e w =
     (let w1 = emit ImportNative w;
          w2 = report (Warn ''whisper.rn native module not available (Expo Go?).'') w1
      in
      case native_import e of
        ImportThrows x \<Rightarrow> (None, w2)
      | ImportUndefined \<Rightarrow> (None, w2)
      | ImportModule m \<Rightarrow> (if initWhisper m = None then (None, w2) else (Some m, w1)))"

record InitOptions =
  initVad :: "bool option"

text \<open>\<open>options?.initVad\<close> as a condition: true only for options that set the flag to true.\<close>

definition wantsVad :: "InitOptions option \<Rightarrow> bool" where
  "wantsVad options =
     (case options of None \<Rightarrow> False
      | Some opts \<Rightarrow> (case initVad opts of None \<Rightarrow> False | Some b \<Rightarrow> b))"

text \<open>The object the action returns: \<open>{ whisperContext, vadContext }\<close>.\<close>

record initialized =
  whisperContext_r :: WhisperContext
  vadContext_r :: "VadContext option"

text \<open>Lines 277-291: the guarded initialisation of the VAD context.\<close>

definition initVadContext ::
  "native_module \<Rightarrow> string \<Rightarrow> manager \<times> world \<Rightarrow> manager \<times> world" where
  "initVadContext whisperNative modelPath sw =
     (case initWhisperVad whisperNative of
        None \<Rightarrow>
          (fst sw, report (Warn ''initWhisperVad not available on native module'') (snd sw))
      | Some (VadThrows x) \<Rightarrow>
          (fst sw, report (Warn ''VAD initialization failed:'')
                     (emit (InitWhisperVad modelPath) (snd sw)))
      | Some (VadOk vad) \<Rightarrow>
          ((fst sw)\<lparr>vadContext := Some vad\<rparr>, emit (InitWhisperVad modelPath) (snd sw)))"

text \<open>
  Lines 246-305.  The lookup in the catalog and its \<open>throw\<close> come before the \<open>try\<close>, so
  an unknown id leaves without touching \<open>isInitializingModel\<close>.

  In the returned object, \<open>vadContext\<close> is the state variable of the hook as the
  callback captured it (the callback is rebuilt when \<open>vadContext\<close> changes), that is the
  value of the state the action was called in; \<open>setVadContext(vad)\<close> a few lines above
  only schedules the next state.  The model therefore reads it from \<open>st0\<close>.
\<close>

definition initializeWhisperModel ::
  "env \<Rightarrow> string \<Rightarrow> InitOptions option \<Rightarrow> manager \<times> world
     \<Rightarrow> (error + initialized) \<times> manager \<times> world" where
  "initializeWhisperModel e modelId options sw =
     (case find (\<lambda>m. id_m m = modelId) WHISPER_MODELS of
        None \<Rightarrow> (Inl InvalidModelSelected, fst sw, snd sw)
      | Some model \<Rightarrow>
          (let st0 = fst sw;
               st1 = st0\<lparr>isInitializingModel := True\<rparr>
           in
           case downloadModel e model (st1, snd sw) of
             (Inl err, st2, w2) \<Rightarrow>
               (Inl err, st2\<lparr>isInitializingModel := False\<rparr>,
                report (Error ''Model initialization error:'') w2)
           | (Inr modelPath, st2, w2) \<Rightarrow>
               (case loadWhisperNative e w2 of
                  (None, w3) \<Rightarrow>
                    (Inl NativeModuleNotAvailable, st2\<lparr>isInitializingModel := False\<rparr>,
                     report (Error ''Model initialization error:'') w3)
                | (Some whisperNative, w3) \<Rightarrow>
                    (let w4 = emit (InitWhisper modelPath) w3 in
                     case initWhisper whisperNative of
                       None \<Rightarrow>
                         (Inl (PlatformError ''whisperNative.initWhisper is not a function''),
                          st2\<lparr>isInitializingModel := False\<rparr>,
                          report (Error ''Model initialization error:'') w4)
                     | Some (InitThrows x) \<Rightarrow>
                         (Inl (PlatformError x), st2\<lparr>isInitializingModel := False\<rparr>,
                          report (Error ''Model initialization error:'') w4)
                     | Some (InitOk context) \<Rightarrow>
                         (let st5 = st2\<lparr>whisperContext := Some context,
                                        currentModelId := Some modelId\<rparr>;
                              sw6 = (if wantsVad options
                                     then initVadContext whisperNative modelPath (st5, w4)
                                     else (st5, w4))
                          in (Inr \<lparr>whisperContext_r = context,
                                   vadContext_r =
                                     (if wantsVad options then vadContext st0 else None)\<rparr>,
                              (fst sw6)\<lparr>isInitializingModel := False\<rparr>, snd sw6))))))"

text \<open>Lines 308-313.\<close>

definition resetWhisperContext :: "manager \<Rightarrow> manager" where
  "resetWhisperContext st =
     st\<lparr>whisperContext := None, vadContext := None, currentModelId := None\<rparr>"

text \<open>Lines 316-336: the helpers.\<close>

definition getModelById :: "string \<Rightarrow> WhisperModel option" where
  "getModelById modelId = find (\<lambda>m. id_m m = modelId) WHISPER_MODELS"

definition isModelDownloaded :: "manager \<Rightarrow> string \<Rightarrow> bool" where
  "isModelDownloaded st modelId = (modelFiles st modelId \<noteq> None)"

definition getDownloadProgress :: "manager \<Rightarrow> string \<Rightarrow> real" where
  "getDownloadProgress st modelId =
     (case downloadProgress st modelId of None \<Rightarrow> 0 | Some p \<Rightarrow> p)"

section \<open>deleteModel\<close>

text \<open>
  Lines 359-385: what \<open>deleteModel\<close> does once the file is out of the way.  The
  \<open>release()\<close> call sits in a \<open>try\<close> whose \<open>catch\<close> only warns.
\<close>

definition forgetModel :: "env \<Rightarrow> string \<Rightarrow> manager \<times> world \<Rightarrow> manager \<times> world" where
  "forgetModel e modelId sw =
     (let st = fst sw;
          st1 = st\<lparr>modelFiles := (modelFiles st)(modelId := None),
                   downloadProgress := (downloadProgress st)(modelId := None)\<rparr>
      in
      if currentModelId st = Some modelId then
        (let w1 = (case whisperContext st of
                     None \<Rightarrow> snd sw
                   | Some c \<Rightarrow>
                       if has_release c then
                         (case release_fault e of
                            None \<Rightarrow> emit (Release (handle c)) (snd sw)
                          | Some x \<Rightarrow>
                              report (Warn
                                ''Failed to release Whisper context during model deletion:'')
                                (emit (Release (handle c)) (snd sw)))
                       else snd sw)
         in (st1\<lparr>whisperContext := None, currentModelId := None, vadContext := None\<rparr>, w1))
      else (st1, snd sw))"

text \<open>
  Lines 339-388.  \<open>modelFiles\<close>, \<open>currentModelId\<close> and \<open>whisperContext\<close> are the values of
  the state the action was called in.  An exception of \<open>file.info()\<close> or
  \<open>file.delete()\<close> is logged and rethrown before any setter runs.
\<close>

definition deleteModel ::
  "env \<Rightarrow> string \<Rightarrow> manager \<times> world \<Rightarrow> (error + unit) \<times> manager \<times> world" where
  "deleteModel e modelId sw =
     (let st = fst sw in
      case modelFiles st modelId of
        None \<Rightarrow>
          (Inr (), st, report (Warn ''Attempted to delete non-downloaded model:'') (snd sw))
      | Some fileInfo \<Rightarrow>
          (let w1 = emit (FileInfo (path fileInfo)) (snd sw) in
           case delete_info e of
             InfoThrows x \<Rightarrow>
               (Inl (PlatformError x), st, report (Error ''Failed to delete model'') w1)
           | Info ex sz \<Rightarrow>
               if ex then
                 (let w2 = emit (FileDelete (path fileInfo)) w1 in
                  case delete_fault e of
                    Some x \<Rightarrow>
                      (Inl (PlatformError x), st, report (Error ''Failed to delete model'') w2)
                  | None \<Rightarrow>
                      (let sw3 = forgetModel e modelId (st, w2)
                       in (Inr (), fst sw3, snd sw3)))
               else
                 (let sw3 = forgetModel e modelId (st, w1)
                  in (Inr (), fst sw3, snd sw3))))"

section \<open>The scan on mount\<close>

text \<open>
  Lines 391-449.  One entry per catalog model whose file is there (or whose stat
  throws, with size 0); the entries are merged into \<open>modelFiles\<close> when there is at
  least one.  A failure of \<open>getModelDirectory\<close> is caught and logged.  The component
  is taken to be still mounted when the stats come back.
\<close>

definition scanEntry ::
  "env \<Rightarrow> string \<Rightarrow> WhisperModel \<Rightarrow> (string \<times> ModelFileInfo) option" where
  "scanEntry e directory model =
     (let fileUri = joinUri directory (filename model) in
      case scan_info e fileUri of
        InfoThrows x \<Rightarrow> Some (id_m model, \<lparr>path = fileUri, size_f = 0\<rparr>)
      | Info ex sz \<Rightarrow>
          if ex then Some (id_m model, \<lparr>path = fileUri, size_f = sizeOrZero sz\<rparr>)
          else None)"

definition scanStat :: "env \<Rightarrow> string \<Rightarrow> world \<Rightarrow> WhisperModel \<Rightarrow> world" where
  "scanStat e directory w model =
     (let fileUri = joinUri directory (filename model) in
      case scan_info e fileUri of
        InfoThrows x \<Rightarrow>
          report (Warn ''Failed to stat existing model file'') (emit (FileInfo fileUri) w)
      | Info ex sz \<Rightarrow> emit (FileInfo fileUri) w)"

definition addEntry ::
  "(string \<rightharpoonup> ModelFileInfo) \<Rightarrow> (string \<times> ModelFileInfo) option
     \<Rightarrow> (string \<rightharpoonup> ModelFileInfo)" where
  "addEntry fileMap entry =
     (case entry of None \<Rightarrow> fileMap | Some (k, info) \<Rightarrow> fileMap(k \<mapsto> info))"

definition loadExistingModels :: "env \<Rightarrow> manager \<times> world \<Rightarrow> manager \<times> world" where
  "loadExistingModels e sw =
     (case getModelDirectory e (snd sw) of
        (Inl err, w1) \<Rightarrow>
          (fst sw, report (Warn ''Failed to load existing Whisper models:'') w1)
      | (Inr directory, w1) \<Rightarrow>
          (let entries = map (scanEntry e directory) WHISPER_MODELS;
               w2 = foldl (scanStat e directory) w1 WHISPER_MODELS;
               fileMap = foldl addEntry Map.empty entries
           in
           if list_ex (\<lambda>entry. entry \<noteq> None) entries
           then ((fst sw)\<lparr>modelFiles := modelFiles (fst sw) ++ fileMap\<rparr>, w2)
           else (fst sw, w2)))"

section \<open>Reachable states\<close>

text \<open>
  The states the hook can be in: the initial one, and every state an action or the
  scan leaves behind, whatever the collaborators answer.
\<close>

inductive reachable :: "manager \<Rightarrow> bool" where
  reachable_initial: "reachable initialState"
| reachable_scan: "reachable st \<Longrightarrow> reachable (fst (loadExistingModels e (st, w)))"
| reachable_download:
    "reachable st \<Longrightarrow> reachable (fst (snd (downloadModel e model (st, w))))"
| reachable_initialize:
    "reachable st \<Longrightarrow>
       reachable (fst (snd (initializeWhisperModel e modelId options (st, w))))"
| reachable_reset: "reachable st \<Longrightarrow> reachable (resetWhisperContext st)"
| reachable_delete:
    "reachable st \<Longrightarrow> reachable (fst (snd (deleteModel e modelId (st, w))))"

section \<open>Observations on a run\<close>

text \<open>The events an action added to the trace.\<close>

definition newEvents :: "world \<Rightarrow> world \<Rightarrow> event list" where
  "newEvents w w' = drop (length (trace w)) (trace w')"

text \<open>The fractions published for one model, in order.\<close>

fun publishedFor :: "string \<Rightarrow> event list \<Rightarrow> real list" where
  "publishedFor k [] = []"
| "publishedFor k (ProgressPublished i f # es) =
     (if i = k then f # publishedFor k es else publishedFor k es)"
| "publishedFor k (ev # es) = publishedFor k es"

fun isDownload :: "event \<Rightarrow> bool" where
  "isDownload (DownloadAsync u t) = True"
| "isDownload ev = False"

text \<open>The document root resolves and has a non-empty uri.\<close>

definition rootAddressable :: "env \<Rightarrow> bool" where
  "rootAddressable e =
     (case document e of
        DocumentDirectory (Some rootUri) \<Rightarrow> rootUri \<noteq> []
      | _ \<Rightarrow> False)"

text \<open>\<open>getModelDirectory\<close> called \<open>n\<close> times in a row on the same platform.\<close>

fun getModelDirectoryTimes :: "nat \<Rightarrow> env \<Rightarrow> world \<Rightarrow> (error + string) list \<times> world" where
  "getModelDirectoryTimes 0 e w = ([], w)"
| "getModelDirectoryTimes (Suc n) e w =
     (let r = getModelDirectory e w;
          rest = getModelDirectoryTimes n e (snd r)
      in (fst r # fst rest, snd rest))"

text \<open>Ticks of a transfer with a known total: byte counts that grow and stay within it.\<close>

definition steadyTicks :: "int \<Rightarrow> (int \<times> int) list \<Rightarrow> bool" where
  "steadyTicks expected ticks =
     (0 < expected \<and> sorted (map fst ticks) \<and>
      list_all (\<lambda>t. snd t = expected \<and> 0 \<le> fst t \<and> fst t \<le> expected) ticks)"

text \<open>
  The state and the trace of \<open>downloadModel\<close> when \<open>downloadAsync\<close> settles: the flag
  is set, the transfer has started and every tick has been published.
\<close>

definition afterStat :: "env \<Rightarrow> string \<Rightarrow> world \<Rightarrow> world" where
  "afterStat e fileUri w =
     (case info_existing e of
        InfoThrows x \<Rightarrow>
          report (Warn ''Failed to read info for model'') (emit (FileInfo fileUri) w)
      | Info ex sz \<Rightarrow> emit (FileInfo fileUri) w)"

definition afterTicks ::
  "env \<Rightarrow> WhisperModel \<Rightarrow> string \<Rightarrow> manager \<times> world \<Rightarrow> manager \<times> world" where
  "afterTicks e model fileUri sw =
     foldl (progressCallback model)
       ((fst sw)\<lparr>isDownloading := True\<rparr>,
        emit (DownloadAsync (url model) fileUri) (afterStat e fileUri (snd sw)))
       (progress_ticks e)"

text \<open>
  The uri of the document root, and the calls \<open>getModelDirectory\<close> makes to the file
  system.
\<close>

definition documentUri :: "env \<Rightarrow> string" where
  "documentUri e =
     (case document e of DocumentDirectory (Some rootUri) \<Rightarrow> rootUri | _ \<Rightarrow> [])"

definition directoryEvents :: "env \<Rightarrow> event list" where
  "directoryEvents e =
     PathsDocument #
       (if rootAddressable e \<and> has_create e
        then [DirectoryCreate (joinUri (documentUri e) ''whisper-models'')] else [])"

section \<open>Example platforms\<close>

text \<open>
  A device on which everything works, following the scenario of the specification:
  the file of the model is absent, the transfer reports 500/2000 and 2000/2000 and
  ends with status 200, and the native module initialises both contexts.
\<close>

definition documents :: string where
  "documents = ''file:///data/documents''"

definition world0 :: world where
  "world0 = \<lparr>dirs = {documents}, trace = [], console = []\<rparr>"

definition device :: env where
  "device =
     \<lparr>document = DocumentDirectory (Some documents),
      has_create = True,
      create_fault = None,
      info_existing = Info False None,
      info_stats = Info True (Some 2000),
      progress_ticks = [(500, 2000), (2000, 2000)],
      download_result = DownloadStatus 200,
      native_import = ImportModule
        \<lparr>initWhisper = Some (InitOk \<lparr>handle = 1, has_release = True\<rparr>),
         initWhisperVad = Some (VadOk 7)\<rparr>,
      delete_info = Info True (Some 2000),
      delete_fault = None,
      release_fault = None,
      scan_info = (\<lambda>u. Info False None)\<rparr>"

definition baseModel :: WhisperModel where
  "baseModel = WHISPER_MODELS ! 2"

definition withVad :: "InitOptions option" where
  "withVad = Some \<lparr>initVad = Some True\<rparr>"

text \<open>
  A device on which the transfer ends with status 404 after one tick, the state and
  trace that \<open>downloadModel\<close> leaves there, and a device on which the file of the
  model is found (9 bytes, as a failed transfer may leave it).
\<close>

definition interrupted :: env where
  "interrupted = device\<lparr>progress_ticks := [(500, 2000)], download_result := DownloadStatus 404\<rparr>"

definition afterFailedDownload :: "manager \<times> world" where
  "afterFailedDownload = snd (downloadModel interrupted baseModel (initialState, world0))"

definition fileLeftBehind :: env where
  "fileLeftBehind = device\<lparr>info_existing := Info True (Some 9), info_stats := Info True (Some 9)\<rparr>"

text \<open>Whether \<open>downloadAsync\<close> resolved with a status that passes the test.\<close>

definition transferSucceeded :: "env \<Rightarrow> bool" where
  "transferSucceeded e =
     (case download_result e of DownloadStatus status \<Rightarrow> statusOk status | _ \<Rightarrow> False)"

text \<open>
  A device whose transfer writes more bytes than the total it announced, as happens
  when the announced length is that of a compressed body.
\<close>

definition overshooting :: env where
  "overshooting = device\<lparr>progress_ticks := [(1000, 2000), (2500, 2000)]\<rparr>"

section \<open>Further observations\<close>

text \<open>The module \<open>loadWhisperNative\<close> hands over, if any.\<close>

definition nativeModule :: "env \<Rightarrow> native_module option" where
  "nativeModule e =
     (case native_import e of
        ImportModule m \<Rightarrow> (if initWhisper m = None then None else Some m)
      | _ \<Rightarrow> None)"

text \<open>
  The VAD context stored in the state after a successful \<open>initWhisper\<close>, and the
  calls made to \<open>initWhisperVad\<close> on the way.
\<close>

definition vadAfterInit :: "native_module \<Rightarrow> InitOptions option \<Rightarrow> VadContext option \<Rightarrow> VadContext option" where
  "vadAfterInit m options old =
     (if wantsVad options
      then (case initWhisperVad m of Some (VadOk vad) \<Rightarrow> Some vad | _ \<Rightarrow> old)
      else old)"

definition vadEvents :: "native_module \<Rightarrow> InitOptions option \<Rightarrow> string \<Rightarrow> event list" where
  "vadEvents m options modelPath =
     (if wantsVad options \<and> initWhisperVad m \<noteq> None then [InitWhisperVad modelPath] else [])"

text \<open>
  In \<open>deleteModel\<close>, the stat does not throw and, when it finds the file, neither
  does the deletion.
\<close>

definition fileDeletionSucceeds :: "env \<Rightarrow> bool" where
  "fileDeletionSucceeds e =
     (case delete_info e of
        InfoThrows x \<Rightarrow> False
      | Info ex sz \<Rightarrow> \<not> ex \<or> delete_fault e = None)"

text \<open>The warning and the call that the \<open>release()\<close> of the held context gives rise to.\<close>

definition releaseWarnings :: "env \<Rightarrow> manager \<Rightarrow> logged list" where
  "releaseWarnings e st =
     (case whisperContext st of
        None \<Rightarrow> []
      | Some c \<Rightarrow>
          if has_release c \<and> release_fault e \<noteq> None
          then [Warn ''Failed to release Whisper context during model deletion:'']
          else [])"

definition releaseCalls :: "manager \<Rightarrow> event list" where
  "releaseCalls st =
     (case whisperContext st of
        None \<Rightarrow> []
      | Some c \<Rightarrow> if has_release c then [Release (handle c)] else [])"

text \<open>
  Two properties of a state: the current model id and the engine handle are set or
  unset together, and the current model has an entry in the cache of file infos.
\<close>

definition slotConsistent :: "manager \<Rightarrow> bool" where
  "slotConsistent st = ((currentModelId st \<noteq> None) = (whisperContext st \<noteq> None))"

definition currentDownloaded :: "manager \<Rightarrow> bool" where
  "currentDownloaded st =
     (case currentModelId st of None \<Rightarrow> True | Some m \<Rightarrow> modelFiles st m \<noteq> None)"

text \<open>
  The state and the world after \<open>initializeWhisperModel("base", {initVad: true})\<close> on the
  device on which everything works.
\<close>

definition afterInitWithVad :: "manager \<times> world" where
  "afterInitWithVad = snd (initializeWhisperModel device ''base'' withVad (initialState, world0))"

text \<open>
  Devices on which one thing goes wrong: the VAD initialisation throws, the deletion
  of a file throws, the release of the context throws.
\<close>

definition vadBroken :: env where
  "vadBroken =
     device\<lparr>native_import := ImportModule
       \<lparr>initWhisper = Some (InitOk \<lparr>handle = 2, has_release = True\<rparr>),
        initWhisperVad = Some (VadThrows ''VAD model rejected'')\<rparr>\<rparr>"

definition deleteRefused :: env where
  "deleteRefused = device\<lparr>delete_fault := Some ''EACCES''\<rparr>"

text \<open>The calls to \<open>release()\<close> among the events.\<close>

fun isRelease :: "event \<Rightarrow> bool" where
  "isRelease (Release h) = True"
| "isRelease ev = False"

definition releaseThrows :: env where
  "releaseThrows = device\<lparr>release_fault := Some ''context already released''\<rparr>"

text \<open>
  Devices on which the directory cannot be created, and on which the native module is
  missing (Expo Go).
\<close>

definition readOnly :: env where
  "readOnly = device\<lparr>create_fault := Some ''EACCES''\<rparr>"

definition expoGo :: env where
  "expoGo = device\<lparr>native_import := ImportThrows ''Cannot find native module'' \<rparr>"

text \<open>The call to \<open>downloadModel\<close> that \<open>initializeWhisperModel\<close> makes.\<close>

definition downloadStep ::
  "env \<Rightarrow> WhisperModel \<Rightarrow> manager \<times> world \<Rightarrow> (error + string) \<times> manager \<times> world" where
  "downloadStep e model sw = downloadModel e model ((fst sw)\<lparr>isInitializingModel := True\<rparr>, snd sw)"

text \<open>The local path of a model.\<close>

definition localPath :: "env \<Rightarrow> WhisperModel \<Rightarrow> string" where
  "localPath e model = joinUri (joinUri (documentUri e) ''whisper-models'') (filename model)"

section \<open>Facts about the world\<close>

lemma emit_simps [simp]:
  "trace (emit ev w) = trace w @ [ev]"
  "dirs (emit ev w) = dirs w"
  "console (emit ev w) = console w"
  by (simp_all add: emit_def)

lemma report_simps [simp]:
  "trace (report l w) = trace w"
  "dirs (report l w) = dirs w"
  "console (report l w) = console w @ [l]"
  by (simp_all add: report_def)

lemma newEvents_append: "trace w' = trace w @ evs \<Longrightarrow> newEvents w w' = evs"
  by (simp add: newEvents_def)

section \<open>Facts about getModelDirectory\<close>

lemma getModelDirectory_result:
  "fst (getModelDirectory e w) =
     (if \<not> rootAddressable e then Inl DocumentDirectoryNotAvailable
      else if has_create e then
        (case create_fault e of
           Some x \<Rightarrow> Inl (PlatformError x)
         | None \<Rightarrow> Inr (joinUri (documentUri e) ''whisper-models''))
      else Inr (joinUri (documentUri e) ''whisper-models''))"
  by (simp add: getModelDirectory_def rootAddressable_def documentUri_def directory_create_def
      Let_def split: document_outcome.splits option.splits)

lemma getModelDirectory_trace:
  "trace (snd (getModelDirectory e w)) = trace w @ directoryEvents e"
  by (simp add: getModelDirectory_def rootAddressable_def documentUri_def directory_create_def
      directoryEvents_def Let_def split: document_outcome.splits option.splits)

lemma getModelDirectory_dirs:
  "dirs (snd (getModelDirectory e w)) =
     (if rootAddressable e \<and> has_create e \<and> create_fault e = None
         \<and> joinUri (documentUri e) ''whisper-models'' \<notin> dirs w
      then insert (joinUri (documentUri e) ''whisper-models'') (insert (documentUri e) (dirs w))
      else dirs w)"
  by (simp add: getModelDirectory_def rootAddressable_def documentUri_def directory_create_def
      Let_def split: document_outcome.splits option.splits)

lemma filter_directoryEvents: "filter isDownload (directoryEvents e) = []"
  by (simp add: directoryEvents_def)

lemma getModelDirectory_ok:
  "document e = DocumentDirectory (Some documents) \<Longrightarrow> has_create e \<Longrightarrow> create_fault e = None
   \<Longrightarrow> fst (getModelDirectory e w) = Inr ''file:///data/documents/whisper-models''"
  by (simp add: getModelDirectory_result rootAddressable_def documentUri_def documents_def
      joinUri_def)

section \<open>Facts about downloadModel\<close>

lemma afterStat_simps [simp]:
  "trace (afterStat e fileUri w) = trace w @ [FileInfo fileUri]"
  "dirs (afterStat e fileUri w) = dirs w"
  by (simp_all add: afterStat_def split: info_outcome.splits)

lemma progress_fold:
  "foldl (progressCallback model) (st, w) ticks =
     (st\<lparr>downloadProgress :=
          (if ticks = [] then downloadProgress st
           else (downloadProgress st)(id_m model \<mapsto> fraction (last ticks)))\<rparr>,
      w\<lparr>trace := trace w @ map (\<lambda>t. ProgressPublished (id_m model) (fraction t)) ticks\<rparr>)"
proof (induction ticks rule: rev_induct)
  case Nil
  show ?case by simp
next
  case (snoc t ticks)
  then show ?case
    by (cases "ticks = []") (auto simp: progressCallback_def emit_def fun_eq_iff)
qed

lemma afterTicks_state:
  "fst (afterTicks e model fileUri (st, w)) =
     st\<lparr>isDownloading := True,
        downloadProgress :=
          (if progress_ticks e = [] then downloadProgress st
           else (downloadProgress st)(id_m model \<mapsto> fraction (last (progress_ticks e))))\<rparr>"
  by (simp add: afterTicks_def progress_fold)

lemma afterTicks_world:
  "trace (snd (afterTicks e model fileUri (st, w))) =
     trace w @ [FileInfo fileUri, DownloadAsync (url model) fileUri]
       @ map (\<lambda>t. ProgressPublished (id_m model) (fraction t)) (progress_ticks e)"
  "dirs (snd (afterTicks e model fileUri (st, w))) = dirs w"
  by (simp_all add: afterTicks_def progress_fold)

lemma updateModelFileInfo_state:
  "fst (updateModelFileInfo e model fileUri sw) =
     (fst sw)\<lparr>modelFiles := (modelFiles (fst sw))(id_m model \<mapsto>
          \<lparr>path = fileUri,
           size_f = (case info_stats e of Info True sz \<Rightarrow> sizeOrZero sz | _ \<Rightarrow> 0)\<rparr>)\<rparr>"
  by (simp add: updateModelFileInfo_def Let_def split: info_outcome.splits bool.splits)

lemma updateModelFileInfo_world:
  "trace (snd (updateModelFileInfo e model fileUri sw)) = trace (snd sw) @ [FileInfo fileUri]"
  "dirs (snd (updateModelFileInfo e model fileUri sw)) = dirs (snd sw)"
  by (simp_all add: updateModelFileInfo_def Let_def split: info_outcome.splits bool.splits)

lemma downloadModel_no_directory:
  assumes "fst (getModelDirectory e w) = Inl err"
  shows "downloadModel e model (st, w) = (Inl err, st, snd (getModelDirectory e w))"
  using assms by (cases "getModelDirectory e w") (simp add: downloadModel_def Let_def)

lemma downloadModel_existing:
  assumes "fst (getModelDirectory e w) = Inr directory" and "existingInfo_exists e"
  shows "downloadModel e model (st, w) =
           (Inr (joinUri directory (filename model)),
            updateModelFileInfo e model (joinUri directory (filename model))
              (st, afterStat e (joinUri directory (filename model))
                     (snd (getModelDirectory e w))))"
  using assms
  by (cases "getModelDirectory e w") (simp add: downloadModel_def afterStat_def Let_def)

lemma downloadModel_absent:
  assumes "fst (getModelDirectory e w) = Inr directory" and "\<not> existingInfo_exists e"
  shows "downloadModel e model (st, w) =
     (let fileUri = joinUri directory (filename model);
          sw4 = afterTicks e model fileUri (st, snd (getModelDirectory e w))
      in case download_result e of
           DownloadRejects x \<Rightarrow>
             (Inl (PlatformError x), (fst sw4)\<lparr>isDownloading := False\<rparr>,
              report (Error ''Error downloading model'') (snd sw4))
         | DownloadUndefined \<Rightarrow>
             (Inl (DownloadFailedWithStatus None), (fst sw4)\<lparr>isDownloading := False\<rparr>,
              report (Error ''Error downloading model'') (snd sw4))
         | DownloadStatus status \<Rightarrow>
             if statusOk status then
               (Inr fileUri,
                (fst (updateModelFileInfo e model fileUri sw4))
                  \<lparr>downloadProgress :=
                     (downloadProgress (fst (updateModelFileInfo e model fileUri sw4)))
                       (id_m model \<mapsto> 1),
                   isDownloading := False\<rparr>,
                emit (ProgressPublished (id_m model) 1)
                  (snd (updateModelFileInfo e model fileUri sw4)))
             else
               (Inl (DownloadFailedWithStatus (Some status)),
                (fst sw4)\<lparr>isDownloading := False\<rparr>,
                report (Error ''Error downloading model'') (snd sw4)))"
  using assms
  by (cases "getModelDirectory e w")
     (simp add: downloadModel_def afterTicks_def afterStat_def Let_def
        split: download_outcome.splits)

text \<open>The four ways \<open>downloadModel\<close> can end.\<close>

lemma downloadModel_shapes:
  obtains
    (no_directory) err where "fst (getModelDirectory e w) = Inl err"
      "downloadModel e model (st, w) = (Inl err, st, snd (getModelDirectory e w))"
  | (existing) directory where "fst (getModelDirectory e w) = Inr directory"
      "existingInfo_exists e"
      "fst (downloadModel e model (st, w)) = Inr (joinUri directory (filename model))"
      "fst (snd (downloadModel e model (st, w))) =
         st\<lparr>modelFiles := (modelFiles st)(id_m model \<mapsto>
              \<lparr>path = joinUri directory (filename model),
               size_f = (case info_stats e of Info True sz \<Rightarrow> sizeOrZero sz | _ \<Rightarrow> 0)\<rparr>)\<rparr>"
  | (failed) directory err where "fst (getModelDirectory e w) = Inr directory"
      "\<not> existingInfo_exists e" "\<not> transferSucceeded e"
      "fst (downloadModel e model (st, w)) = Inl err"
      "fst (snd (downloadModel e model (st, w))) =
         (fst (afterTicks e model (joinUri directory (filename model))
                 (st, snd (getModelDirectory e w))))\<lparr>isDownloading := False\<rparr>"
  | (downloaded) directory where "fst (getModelDirectory e w) = Inr directory"
      "\<not> existingInfo_exists e" "transferSucceeded e"
      "fst (downloadModel e model (st, w)) = Inr (joinUri directory (filename model))"
      "fst (snd (downloadModel e model (st, w))) =
         (fst (afterTicks e model (joinUri directory (filename model))
                 (st, snd (getModelDirectory e w))))
           \<lparr>modelFiles := (modelFiles st)(id_m model \<mapsto>
              \<lparr>path = joinUri directory (filename model),
               size_f = (case info_stats e of Info True sz \<Rightarrow> sizeOrZero sz | _ \<Rightarrow> 0)\<rparr>),
            downloadProgress := (downloadProgress (fst (afterTicks e model
                 (joinUri directory (filename model)) (st, snd (getModelDirectory e w)))))
                   (id_m model \<mapsto> 1),
            isDownloading := False\<rparr>"
proof (cases "fst (getModelDirectory e w)")
  case (Inl err)
  then show ?thesis using no_directory downloadModel_no_directory by blast
next
  case (Inr directory)
  show ?thesis
  proof (cases "existingInfo_exists e")
    case True
    then show ?thesis
      using existing[OF Inr True] downloadModel_existing[OF Inr True, of model st]
      by (simp add: updateModelFileInfo_state)
  next
    case False
    obtain st4 w4 where t: "afterTicks e model (joinUri directory (filename model))
        (st, snd (getModelDirectory e w)) = (st4, w4)" by force
    have mf: "modelFiles st4 = modelFiles st"
      using t afterTicks_state[of e model "joinUri directory (filename model)" st
          "snd (getModelDirectory e w)"] by auto
    show ?thesis
    proof (cases "transferSucceeded e")
      case True
      then show ?thesis
        using downloaded[OF Inr False True] t mf
        by (auto simp: downloadModel_absent[OF Inr False] transferSucceeded_def Let_def
            updateModelFileInfo_state split: download_outcome.splits)
    next
      case nok: False
      then obtain err where "fst (downloadModel e model (st, w)) = Inl err"
        by (auto simp: downloadModel_absent[OF Inr False] transferSucceeded_def Let_def
            split: download_outcome.splits)
      then show ?thesis
        using failed[OF Inr False nok] t nok
        by (auto simp: downloadModel_absent[OF Inr False] transferSucceeded_def Let_def
            split: download_outcome.splits)
    qed
  qed
qed

lemma downloadModel_frame:
  "whisperContext (fst (snd (downloadModel e model (st, w)))) = whisperContext st"
  "vadContext (fst (snd (downloadModel e model (st, w)))) = vadContext st"
  "currentModelId (fst (snd (downloadModel e model (st, w)))) = currentModelId st"
  "isInitializingModel (fst (snd (downloadModel e model (st, w)))) = isInitializingModel st"
  by (rule downloadModel_shapes[where e=e and w=w and model=model and st=st];
      simp add: afterTicks_state)+

lemma downloadModel_keeps_entries:
  "modelFiles st m \<noteq> None \<Longrightarrow> modelFiles (fst (snd (downloadModel e model (st, w)))) m \<noteq> None"
  by (rule downloadModel_shapes[where e=e and w=w and model=model and st=st])
     (auto simp: afterTicks_state)

lemma downloadModel_success_entry:
  assumes "fst (downloadModel e model (st, w)) = Inr p"
  shows "modelFiles (fst (snd (downloadModel e model (st, w)))) (id_m model) =
           Some \<lparr>path = p,
                 size_f = (case info_stats e of Info True sz \<Rightarrow> sizeOrZero sz | _ \<Rightarrow> 0)\<rparr>"
  by (rule downloadModel_shapes[where e=e and w=w and model=model and st=st])
     (use assms in \<open>auto simp: afterTicks_state\<close>)

lemma downloadModel_existing_trace:
  assumes "fst (getModelDirectory e w) = Inr directory" and "existingInfo_exists e"
  shows "trace (snd (snd (downloadModel e model (st, w)))) =
           trace w @ (directoryEvents e
             @ [FileInfo (joinUri directory (filename model)),
                FileInfo (joinUri directory (filename model))])"
  by (simp add: downloadModel_existing[OF assms] updateModelFileInfo_world
      getModelDirectory_trace)

lemma downloadModel_absent_trace:
  assumes "fst (getModelDirectory e w) = Inr directory" and "\<not> existingInfo_exists e"
  shows "trace (snd (snd (downloadModel e model (st, w)))) =
           trace w @ (directoryEvents e
             @ [FileInfo (joinUri directory (filename model)),
                DownloadAsync (url model) (joinUri directory (filename model))]
             @ map (\<lambda>t. ProgressPublished (id_m model) (fraction t)) (progress_ticks e)
             @ (if transferSucceeded e
                then [FileInfo (joinUri directory (filename model)),
                      ProgressPublished (id_m model) 1]
                else []))"
proof -
  obtain st4 w4 where t: "afterTicks e model (joinUri directory (filename model))
      (st, snd (getModelDirectory e w)) = (st4, w4)" by force
  have w4: "trace w4 = trace w @ directoryEvents e
      @ [FileInfo (joinUri directory (filename model)),
         DownloadAsync (url model) (joinUri directory (filename model))]
      @ map (\<lambda>t. ProgressPublished (id_m model) (fraction t)) (progress_ticks e)"
    using afterTicks_world(1)[of e model "joinUri directory (filename model)" st
        "snd (getModelDirectory e w)"] t
    by (simp add: getModelDirectory_trace)
  show ?thesis
    using t w4
    by (simp add: downloadModel_absent[OF assms] transferSucceeded_def Let_def
        updateModelFileInfo_world split: download_outcome.splits)
qed

section \<open>Facts about the published progress\<close>

lemma publishedFor_append:
  "publishedFor k (xs @ ys) = publishedFor k xs @ publishedFor k ys"
  by (induction k xs rule: publishedFor.induct) simp_all

lemma publishedFor_directoryEvents: "publishedFor k (directoryEvents e) = []"
  by (simp add: directoryEvents_def)

lemma publishedFor_ticks:
  "publishedFor k (map (\<lambda>t. ProgressPublished k (f t)) ticks) = map f ticks"
  by (induction ticks) simp_all

lemma fraction_steady:
  assumes "steadyTicks expected ticks"
  shows "sorted (map fraction ticks)" and "\<forall>x \<in> set (map fraction ticks). x \<le> 1"
proof -
  have pos: "0 < expected" and srt: "sorted_wrt (\<lambda>a b. fst a \<le> fst b) ticks"
    and all: "\<forall>t \<in> set ticks. snd t = expected \<and> 0 \<le> fst t \<and> fst t \<le> expected"
    using assms by (simp_all add: steadyTicks_def sorted_map list_all_iff)
  have fr: "\<And>t. t \<in> set ticks \<Longrightarrow> fraction t = real_of_int (fst t) / real_of_int expected"
    using all pos by (simp add: fraction_def Let_def)
  have "sorted_wrt (\<lambda>a b. fraction a \<le> fraction b) ticks"
  proof (rule sorted_wrt_mono_rel[OF _ srt])
    fix a b assume "a \<in> set ticks" "b \<in> set ticks" "fst a \<le> fst b"
    then show "fraction a \<le> fraction b"
      using pos by (simp add: fr divide_right_mono)
  qed
  then show "sorted (map fraction ticks)" by (simp add: sorted_map)
  show "\<forall>x \<in> set (map fraction ticks). x \<le> 1"
    using all pos by (auto simp: fr)
qed

section \<open>Runs on the example platforms\<close>

lemmas run_defs =
  downloadModel_def getModelDirectory_def directory_create_def emit_def report_def joinUri_def
  updateModelFileInfo_def progressCallback_def fraction_def statusOk_def
  existingInfo_exists_def sizeOrZero_def Let_def device_def world0_def documents_def
  baseModel_def WHISPER_MODELS_def initialState_def

lemma afterFailedDownload_eq:
  "afterFailedDownload =
     (\<lparr>modelFiles = Map.empty, downloadProgress = [''base'' \<mapsto> 1 / 4], isDownloading = False,
       isInitializingModel = False, whisperContext = None, vadContext = None,
       currentModelId = None\<rparr>,
      \<lparr>dirs = {''file:///data/documents/whisper-models'', ''file:///data/documents''},
       trace = [PathsDocument, DirectoryCreate ''file:///data/documents/whisper-models'',
                FileInfo ''file:///data/documents/whisper-models/ggml-base.bin'',
                DownloadAsync
                  ''https://huggingface.co/ggerganov/whisper.cpp/resolve/main/ggml-base.bin''
                  ''file:///data/documents/whisper-models/ggml-base.bin'',
                ProgressPublished ''base'' (1 / 4)],
       console = [Error ''Error downloading model'']\<rparr>)"
  by (simp add: afterFailedDownload_def interrupted_def run_defs)

section \<open>Facts about initializeWhisperModel and deleteModel\<close>

lemma loadWhisperNative_simps:
  "fst (loadWhisperNative e w) = nativeModule e"
  "trace (snd (loadWhisperNative e w)) = trace w @ [ImportNative]"
  "dirs (snd (loadWhisperNative e w)) = dirs w"
  by (simp_all add: loadWhisperNative_def nativeModule_def Let_def split: import_outcome.splits)

lemma nativeModule_initWhisper: "nativeModule e = Some m \<Longrightarrow> initWhisper m \<noteq> None"
  by (auto simp: nativeModule_def split: import_outcome.splits if_splits)

lemma initVadContext_simps:
  "fst (initVadContext m p (st, w)) =
     st\<lparr>vadContext := (case initWhisperVad m of Some (VadOk vad) \<Rightarrow> Some vad | _ \<Rightarrow> vadContext st)\<rparr>"
  "trace (snd (initVadContext m p (st, w))) =
     trace w @ (if initWhisperVad m \<noteq> None then [InitWhisperVad p] else [])"
  "dirs (snd (initVadContext m p (st, w))) = dirs w"
  by (simp_all add: initVadContext_def split: option.splits vad_outcome.splits)

lemma initializeWhisperModel_shapes:
  assumes known: "find (\<lambda>m. id_m m = modelId) WHISPER_MODELS = Some model"
  obtains
    (download_failed) err where
      "fst (downloadModel e model (st\<lparr>isInitializingModel := True\<rparr>, w)) = Inl err"
      "fst (initializeWhisperModel e modelId options (st, w)) = Inl err"
      "fst (snd (initializeWhisperModel e modelId options (st, w))) =
         (fst (snd (downloadModel e model (st\<lparr>isInitializingModel := True\<rparr>, w))))
           \<lparr>isInitializingModel := False\<rparr>"
      "trace (snd (snd (initializeWhisperModel e modelId options (st, w)))) =
         trace (snd (snd (downloadModel e model (st\<lparr>isInitializingModel := True\<rparr>, w))))"
  | (native_unavailable) modelPath where
      "fst (downloadModel e model (st\<lparr>isInitializingModel := True\<rparr>, w)) = Inr modelPath"
      "nativeModule e = None"
      "fst (initializeWhisperModel e modelId options (st, w)) = Inl NativeModuleNotAvailable"
      "fst (snd (initializeWhisperModel e modelId options (st, w))) =
         (fst (snd (downloadModel e model (st\<lparr>isInitializingModel := True\<rparr>, w))))
           \<lparr>isInitializingModel := False\<rparr>"
      "trace (snd (snd (initializeWhisperModel e modelId options (st, w)))) =
         trace (snd (snd (downloadModel e model (st\<lparr>isInitializingModel := True\<rparr>, w))))
           @ [ImportNative]"
  | (init_failed) modelPath m x where
      "fst (downloadModel e model (st\<lparr>isInitializingModel := True\<rparr>, w)) = Inr modelPath"
      "nativeModule e = Some m" "initWhisper m = Some (InitThrows x)"
      "fst (initializeWhisperModel e modelId options (st, w)) = Inl (PlatformError x)"
      "fst (snd (initializeWhisperModel e modelId options (st, w))) =
         (fst (snd (downloadModel e model (st\<lparr>isInitializingModel := True\<rparr>, w))))
           \<lparr>isInitializingModel := False\<rparr>"
      "trace (snd (snd (initializeWhisperModel e modelId options (st, w)))) =
         trace (snd (snd (downloadModel e model (st\<lparr>isInitializingModel := True\<rparr>, w))))
           @ [ImportNative, InitWhisper modelPath]"
  | (initialized) modelPath m ctx where
      "fst (downloadModel e model (st\<lparr>isInitializingModel := True\<rparr>, w)) = Inr modelPath"
      "nativeModule e = Some m" "initWhisper m = Some (InitOk ctx)"
      "fst (initializeWhisperModel e modelId options (st, w)) =
         Inr \<lparr>whisperContext_r = ctx,
              vadContext_r = (if wantsVad options then vadContext st else None)\<rparr>"
      "fst (snd (initializeWhisperModel e modelId options (st, w))) =
         (fst (snd (downloadModel e model (st\<lparr>isInitializingModel := True\<rparr>, w))))
           \<lparr>whisperContext := Some ctx, currentModelId := Some modelId,
            vadContext := vadAfterInit m options (vadContext st),
            isInitializingModel := False\<rparr>"
      "trace (snd (snd (initializeWhisperModel e modelId options (st, w)))) =
         trace (snd (snd (downloadModel e model (st\<lparr>isInitializingModel := True\<rparr>, w))))
           @ [ImportNative, InitWhisper modelPath] @ vadEvents m options modelPath"
proof -
  let ?D = "downloadModel e model (st\<lparr>isInitializingModel := True\<rparr>, w)"
  let ?I = "initializeWhisperModel e modelId options (st, w)"
  obtain r st2 w2 where d: "?D = (r, st2, w2)"
    by (cases ?D) auto
  have vad2: "vadContext st2 = vadContext st"
    using downloadModel_frame(2)[of e model "st\<lparr>isInitializingModel := True\<rparr>" w] d by simp
  obtain n w3 where l: "loadWhisperNative e w2 = (n, w3)" by force
  have n: "n = nativeModule e" and w3: "trace w3 = trace w2 @ [ImportNative]"
    using loadWhisperNative_simps(1,2)[of e w2] l by simp_all
  show ?thesis
  proof (cases r)
    case (Inl err)
    have "?I = (Inl err, st2\<lparr>isInitializingModel := False\<rparr>,
                report (Error ''Model initialization error:'') w2)"
      using d known Inl by (simp add: initializeWhisperModel_def Let_def)
    then show ?thesis
      using download_failed[of err] d Inl by simp
  next
    case (Inr modelPath)
    show ?thesis
    proof (cases n)
      case None
      have "?I = (Inl NativeModuleNotAvailable, st2\<lparr>isInitializingModel := False\<rparr>,
                  report (Error ''Model initialization error:'') w3)"
        using d known Inr l None by (simp add: initializeWhisperModel_def Let_def)
      then show ?thesis
        using native_unavailable[of modelPath] d Inr n None w3 by simp
    next
      case (Some m)
      then have nm: "nativeModule e = Some m" using n by simp
      then obtain io where io: "initWhisper m = Some io"
        using nativeModule_initWhisper by blast
      show ?thesis
      proof (cases io)
        case (InitThrows x)
        have "?I = (Inl (PlatformError x), st2\<lparr>isInitializingModel := False\<rparr>,
                    report (Error ''Model initialization error:'') (emit (InitWhisper modelPath) w3))"
          using d known Inr l Some io InitThrows
          by (simp add: initializeWhisperModel_def Let_def)
        then show ?thesis
          using init_failed[of modelPath m x] d Inr nm io InitThrows w3 by simp
      next
        case (InitOk ctx)
        let ?sw6 = "if wantsVad options
                    then initVadContext m modelPath
                           (st2\<lparr>whisperContext := Some ctx, currentModelId := Some modelId\<rparr>,
                            emit (InitWhisper modelPath) w3)
                    else (st2\<lparr>whisperContext := Some ctx, currentModelId := Some modelId\<rparr>,
                          emit (InitWhisper modelPath) w3)"
        have run: "?I = (Inr \<lparr>whisperContext_r = ctx,
                              vadContext_r = (if wantsVad options then vadContext st else None)\<rparr>,
                         (fst ?sw6)\<lparr>isInitializingModel := False\<rparr>, snd ?sw6)"
          using d known Inr l Some io InitOk
          by (simp add: initializeWhisperModel_def Let_def)
        have s6: "fst ?sw6 = st2\<lparr>whisperContext := Some ctx, currentModelId := Some modelId,
                                  vadContext := vadAfterInit m options (vadContext st)\<rparr>"
          using vad2 by (cases "wantsVad options")
            (simp_all add: initVadContext_simps vadAfterInit_def
               split: option.splits vad_outcome.splits)
        have t6: "trace (snd ?sw6) =
                    trace w2 @ [ImportNative, InitWhisper modelPath] @ vadEvents m options modelPath"
          using w3 by (cases "wantsVad options")
            (simp_all add: initVadContext_simps vadEvents_def)
        have a: "fst ?D = Inr modelPath" using d Inr by simp
        have b: "fst ?I = Inr \<lparr>whisperContext_r = ctx,
                              vadContext_r = (if wantsVad options then vadContext st else None)\<rparr>"
          unfolding run by simp
        have c: "fst (snd ?I) = (fst (snd ?D))
                   \<lparr>whisperContext := Some ctx, currentModelId := Some modelId,
                    vadContext := vadAfterInit m options (vadContext st),
                    isInitializingModel := False\<rparr>"
          unfolding run using s6 d by simp
        have t: "trace (snd (snd ?I)) = trace (snd (snd ?D))
                   @ [ImportNative, InitWhisper modelPath] @ vadEvents m options modelPath"
          unfolding run using t6 d by simp
        show ?thesis
          using initialized[OF a nm _ b c t] io InitOk by simp
      qed
    qed
  qed
qed

lemma initializeWhisperModel_not_found:
  assumes "find (\<lambda>m. id_m m = modelId) WHISPER_MODELS = None"
  shows "initializeWhisperModel e modelId options (st, w) = (Inl InvalidModelSelected, st, w)"
  using assms by (simp add: initializeWhisperModel_def)

lemma find_id: "find (\<lambda>m. id_m m = modelId) WHISPER_MODELS = Some model \<Longrightarrow> id_m model = modelId"
  by (auto simp: find_Some_iff)

lemma forgetModel_current:
  assumes "currentModelId st = Some modelId"
  shows "fst (forgetModel e modelId (st, w)) =
           st\<lparr>modelFiles := (modelFiles st)(modelId := None),
              downloadProgress := (downloadProgress st)(modelId := None),
              whisperContext := None, currentModelId := None, vadContext := None\<rparr>"
    and "trace (snd (forgetModel e modelId (st, w))) = trace w @ releaseCalls st"
    and "console (snd (forgetModel e modelId (st, w))) = console w @ releaseWarnings e st"
    and "dirs (snd (forgetModel e modelId (st, w))) = dirs w"
  using assms
  by (simp_all add: forgetModel_def Let_def releaseCalls_def releaseWarnings_def
      split: option.splits)

lemma forgetModel_other:
  assumes "currentModelId st \<noteq> Some modelId"
  shows "forgetModel e modelId (st, w) =
           (st\<lparr>modelFiles := (modelFiles st)(modelId := None),
               downloadProgress := (downloadProgress st)(modelId := None)\<rparr>, w)"
  using assms by (simp add: forgetModel_def Let_def)

lemma deleteModel_not_downloaded:
  assumes "modelFiles st modelId = None"
  shows "deleteModel e modelId (st, w) =
           (Inr (), st, report (Warn ''Attempted to delete non-downloaded model:'') w)"
  using assms by (simp add: deleteModel_def)

lemma deleteModel_stat_throws:
  assumes "modelFiles st modelId = Some fileInfo" and "delete_info e = InfoThrows x"
  shows "deleteModel e modelId (st, w) =
           (Inl (PlatformError x), st,
            report (Error ''Failed to delete model'') (emit (FileInfo (path fileInfo)) w))"
  using assms by (simp add: deleteModel_def)

lemma deleteModel_delete_throws:
  assumes "modelFiles st modelId = Some fileInfo" and "delete_info e = Info True sz"
      and "delete_fault e = Some x"
  shows "deleteModel e modelId (st, w) =
           (Inl (PlatformError x), st,
            report (Error ''Failed to delete model'')
              (emit (FileDelete (path fileInfo)) (emit (FileInfo (path fileInfo)) w)))"
  using assms by (simp add: deleteModel_def)

lemma deleteModel_deleted:
  assumes "modelFiles st modelId = Some fileInfo" and "delete_info e = Info existsOnDisk sz"
      and "existsOnDisk \<longrightarrow> delete_fault e = None"
  shows "deleteModel e modelId (st, w) =
           (Inr (),
            forgetModel e modelId
              (st, if existsOnDisk
                   then emit (FileDelete (path fileInfo)) (emit (FileInfo (path fileInfo)) w)
                   else emit (FileInfo (path fileInfo)) w))"
  using assms by (auto simp: deleteModel_def Let_def)

lemma fileDeletionSucceeds_cases:
  assumes "fileDeletionSucceeds e"
  obtains existsOnDisk sz where "delete_info e = Info existsOnDisk sz"
    "existsOnDisk \<longrightarrow> delete_fault e = None"
  using assms by (auto simp: fileDeletionSucceeds_def split: info_outcome.splits)

text \<open>\<open>deleteModel\<close> either changes nothing in the state or forgets the model.\<close>

lemma deleteModel_state_cases:
  "fst (snd (deleteModel e modelId (st, w))) = st
   \<or> fst (snd (deleteModel e modelId (st, w))) = fst (forgetModel e modelId (st, w))"
proof (cases "modelFiles st modelId")
  case None
  then show ?thesis by (simp add: deleteModel_not_downloaded)
next
  case (Some fileInfo)
  have indep: "\<And>w1 w2. fst (forgetModel e modelId (st, w1)) = fst (forgetModel e modelId (st, w2))"
    by (simp add: forgetModel_def Let_def)
  show ?thesis
  proof (cases "delete_info e")
    case (InfoThrows x)
    then show ?thesis using Some by (simp add: deleteModel_stat_throws)
  next
    case (Info ex sz)
    show ?thesis
    proof (cases "ex \<longrightarrow> delete_fault e = None")
      case True
      show ?thesis
        using indep by (simp add: deleteModel_deleted[OF Some Info True])
    next
      case False
      then obtain x where "ex" "delete_fault e = Some x" by auto
      then show ?thesis using Some Info by (simp add: deleteModel_delete_throws)
    qed
  qed
qed

lemma forgetModel_state:
  "fst (forgetModel e modelId (st, w)) =
     (if currentModelId st = Some modelId
      then st\<lparr>modelFiles := (modelFiles st)(modelId := None),
              downloadProgress := (downloadProgress st)(modelId := None),
              whisperContext := None, currentModelId := None, vadContext := None\<rparr>
      else st\<lparr>modelFiles := (modelFiles st)(modelId := None),
              downloadProgress := (downloadProgress st)(modelId := None)\<rparr>)"
  by (simp add: forgetModel_def Let_def)

section \<open>Facts about the scan\<close>

lemma loadExistingModels_state:
  "\<exists>fileMap. fst (loadExistingModels e (st, w)) = st\<lparr>modelFiles := modelFiles st ++ fileMap\<rparr>"
proof (cases "getModelDirectory e w")
  case (Pair r w1)
  show ?thesis
  proof (cases r)
    case (Inl err)
    have "fst (loadExistingModels e (st, w)) = st"
      using Pair Inl by (simp add: loadExistingModels_def)
    then have "fst (loadExistingModels e (st, w)) = st\<lparr>modelFiles := modelFiles st ++ Map.empty\<rparr>"
      by simp
    then show ?thesis by blast
  next
    case (Inr directory)
    let ?fm = "foldl addEntry Map.empty (map (scanEntry e directory) WHISPER_MODELS)"
    have "fst (loadExistingModels e (st, w)) = st\<lparr>modelFiles := modelFiles st ++ ?fm\<rparr>
          \<or> fst (loadExistingModels e (st, w)) = st\<lparr>modelFiles := modelFiles st ++ Map.empty\<rparr>"
      using Pair Inr by (simp add: loadExistingModels_def Let_def)
    then show ?thesis by blast
  qed
qed

section \<open>Invariants of the reachable states\<close>

lemma invariant_initial: "slotConsistent initialState" "currentDownloaded initialState"
  by (simp_all add: slotConsistent_def currentDownloaded_def initialState_def)

lemma invariant_scan:
  assumes "slotConsistent st" "currentDownloaded st"
  shows "slotConsistent (fst (loadExistingModels e (st, w)))"
    and "currentDownloaded (fst (loadExistingModels e (st, w)))"
proof -
  obtain fileMap where f: "fst (loadExistingModels e (st, w)) = st\<lparr>modelFiles := modelFiles st ++ fileMap\<rparr>"
    using loadExistingModels_state by blast
  show "slotConsistent (fst (loadExistingModels e (st, w)))"
    using assms(1) by (simp add: f slotConsistent_def)
  show "currentDownloaded (fst (loadExistingModels e (st, w)))"
    using assms(2) by (auto simp: f currentDownloaded_def map_add_def split: option.splits)
qed

lemma invariant_download:
  assumes "slotConsistent st" "currentDownloaded st"
  shows "slotConsistent (fst (snd (downloadModel e model (st, w))))"
    and "currentDownloaded (fst (snd (downloadModel e model (st, w))))"
  using assms downloadModel_keeps_entries[of st _ e model w]
  by (auto simp: slotConsistent_def currentDownloaded_def downloadModel_frame
      split: option.splits)

lemma invariant_reset:
  "slotConsistent (resetWhisperContext st)" "currentDownloaded (resetWhisperContext st)"
  by (simp_all add: slotConsistent_def currentDownloaded_def resetWhisperContext_def)

lemma invariant_delete:
  assumes "slotConsistent st" "currentDownloaded st"
  shows "slotConsistent (fst (snd (deleteModel e modelId (st, w))))"
    and "currentDownloaded (fst (snd (deleteModel e modelId (st, w))))"
  using assms deleteModel_state_cases[of e modelId st w]
  by (auto simp: slotConsistent_def currentDownloaded_def forgetModel_state
      split: option.splits if_splits)

lemma invariant_initialize:
  assumes "slotConsistent st" "currentDownloaded st"
  shows "slotConsistent (fst (snd (initializeWhisperModel e modelId options (st, w))))"
    and "currentDownloaded (fst (snd (initializeWhisperModel e modelId options (st, w))))"
proof -
  let ?st1 = "st\<lparr>isInitializingModel := True\<rparr>"
  have "slotConsistent (fst (snd (initializeWhisperModel e modelId options (st, w))))
      \<and> currentDownloaded (fst (snd (initializeWhisperModel e modelId options (st, w))))"
  proof (cases "find (\<lambda>m. id_m m = modelId) WHISPER_MODELS")
    case None
    then show ?thesis using assms by (simp add: initializeWhisperModel_not_found)
  next
    case (Some model)
    have pre: "slotConsistent ?st1" "currentDownloaded ?st1"
      using assms by (simp_all add: slotConsistent_def currentDownloaded_def split: option.splits)
    have d: "slotConsistent (fst (snd (downloadModel e model (?st1, w))))"
        "currentDownloaded (fst (snd (downloadModel e model (?st1, w))))"
      using invariant_download[OF pre] by simp_all
    have unchanged: "\<And>s. slotConsistent s \<Longrightarrow> currentDownloaded s \<Longrightarrow>
        slotConsistent (s\<lparr>isInitializingModel := False\<rparr>)
        \<and> currentDownloaded (s\<lparr>isInitializingModel := False\<rparr>)"
      by (simp add: slotConsistent_def currentDownloaded_def split: option.splits)
    show ?thesis
    proof (rule initializeWhisperModel_shapes[OF Some, where e=e and st=st and w=w
          and options=options])
      fix err
      assume "fst (snd (initializeWhisperModel e modelId options (st, w))) =
         (fst (snd (downloadModel e model (?st1, w))))\<lparr>isInitializingModel := False\<rparr>"
      then show ?thesis using unchanged[OF d] by simp
    next
      fix modelPath
      assume "fst (snd (initializeWhisperModel e modelId options (st, w))) =
         (fst (snd (downloadModel e model (?st1, w))))\<lparr>isInitializingModel := False\<rparr>"
      then show ?thesis using unchanged[OF d] by simp
    next
      fix modelPath m x
      assume "fst (snd (initializeWhisperModel e modelId options (st, w))) =
         (fst (snd (downloadModel e model (?st1, w))))\<lparr>isInitializingModel := False\<rparr>"
      then show ?thesis using unchanged[OF d] by simp
    next
      fix modelPath m ctx
      assume ok: "fst (downloadModel e model (?st1, w)) = Inr modelPath"
        and st': "fst (snd (initializeWhisperModel e modelId options (st, w))) =
           (fst (snd (downloadModel e model (?st1, w))))
             \<lparr>whisperContext := Some ctx, currentModelId := Some modelId,
              vadContext := vadAfterInit m options (vadContext st),
              isInitializingModel := False\<rparr>"
      have "modelFiles (fst (snd (downloadModel e model (?st1, w)))) modelId \<noteq> None"
        using downloadModel_success_entry[OF ok] find_id[OF Some] by simp
      then show ?thesis
        by (simp add: st' slotConsistent_def currentDownloaded_def)
    qed
  qed
  then show "slotConsistent (fst (snd (initializeWhisperModel e modelId options (st, w))))"
    and "currentDownloaded (fst (snd (initializeWhisperModel e modelId options (st, w))))"
    by simp_all
qed

lemma slot_download:
  "slotConsistent (fst (snd (downloadModel e model (st, w)))) = slotConsistent st"
  by (simp add: slotConsistent_def downloadModel_frame)

lemma slot_initialize:
  assumes "slotConsistent st"
  shows "slotConsistent (fst (snd (initializeWhisperModel e modelId options (st, w))))"
proof (cases "find (\<lambda>m. id_m m = modelId) WHISPER_MODELS")
  case None
  then show ?thesis using assms by (simp add: initializeWhisperModel_not_found)
next
  case (Some model)
  have d: "slotConsistent (fst (snd (downloadModel e model
             (st\<lparr>isInitializingModel := True\<rparr>, w))))"
    using assms by (simp add: slot_download) (simp add: slotConsistent_def)
  show ?thesis
    by (rule initializeWhisperModel_shapes[OF Some, where e=e and st=st and w=w
          and options=options])
       (use d in \<open>simp_all add: slotConsistent_def\<close>)
qed

lemma slot_delete:
  assumes "slotConsistent st"
  shows "slotConsistent (fst (snd (deleteModel e modelId (st, w))))"
  using assms deleteModel_state_cases[of e modelId st w]
  by (auto simp: slotConsistent_def forgetModel_state split: if_splits)

lemma reachable_invariant:
  "reachable st \<Longrightarrow> slotConsistent st \<and> currentDownloaded st"
proof (induction rule: reachable.induct)
  case reachable_initial
  show ?case by (simp add: invariant_initial)
next
  case (reachable_scan st e w)
  then show ?case by (simp add: invariant_scan)
next
  case (reachable_download st e model w)
  then show ?case by (simp add: invariant_download)
next
  case (reachable_initialize st e modelId options w)
  then show ?case by (simp add: invariant_initialize)
next
  case (reachable_reset st)
  show ?case by (simp add: invariant_reset)
next
  case (reachable_delete st e modelId w)
  then show ?case by (simp add: invariant_delete)
qed

lemmas init_defs =
  initializeWhisperModel_def loadWhisperNative_def initVadContext_def wantsVad_def withVad_def

lemma afterInitWithVad_eq:
  "afterInitWithVad =
     (\<lparr>modelFiles = [''base'' \<mapsto>
        \<lparr>path = ''file:///data/documents/whisper-models/ggml-base.bin'', size_f = 2000\<rparr>],
      downloadProgress = [''base'' \<mapsto> 1], isDownloading = False,
      isInitializingModel = False,
      whisperContext = Some \<lparr>handle = 1, has_release = True\<rparr>, vadContext = Some 7,
      currentModelId = Some ''base''\<rparr>,
      \<lparr>dirs = {''file:///data/documents/whisper-models'', ''file:///data/documents''},
       trace = [PathsDocument, DirectoryCreate ''file:///data/documents/whisper-models'',
                FileInfo ''file:///data/documents/whisper-models/ggml-base.bin'',
                DownloadAsync
                  ''https://huggingface.co/ggerganov/whisper.cpp/resolve/main/ggml-base.bin''
                  ''file:///data/documents/whisper-models/ggml-base.bin'',
                ProgressPublished ''base'' (1 / 4), ProgressPublished ''base'' 1,
                FileInfo ''file:///data/documents/whisper-models/ggml-base.bin'',
                ProgressPublished ''base'' 1, ImportNative,
                InitWhisper ''file:///data/documents/whisper-models/ggml-base.bin'',
                InitWhisperVad ''file:///data/documents/whisper-models/ggml-base.bin''],
       console = []\<rparr>)"
  by (simp add: afterInitWithVad_def init_defs run_defs)

lemma afterInitWithVad_reachable: "reachable (fst afterInitWithVad)"
  unfolding afterInitWithVad_def
  using reachable_initialize[OF reachable_initial, of device "''base''" withVad world0]
  by simp

text \<open>What the action returns as \<open>vadContext\<close>, whatever happens to the VAD initialisation.\<close>

lemma initializeWhisperModel_returned_vad:
  assumes "fst (initializeWhisperModel e modelId options (st, w)) = Inr r"
  shows "vadContext_r r = (if wantsVad options then vadContext st else None)"
proof (cases "find (\<lambda>m. id_m m = modelId) WHISPER_MODELS")
  case None
  then show ?thesis using assms by (simp add: initializeWhisperModel_not_found)
next
  case (Some model)
  show ?thesis
    by (rule initializeWhisperModel_shapes[OF Some, where e=e and st=st and w=w
          and options=options])
       (use assms in auto)
qed

section \<open>Facts about repeated calls of getModelDirectory\<close>

lemma getModelDirectoryTimes_results:
  assumes "rootAddressable e" and "has_create e" and "create_fault e = None"
  shows "fst (getModelDirectoryTimes n e w) =
           replicate n (Inr (joinUri (documentUri e) ''whisper-models''))"
  using assms
  by (induction n arbitrary: w) (simp_all add: Let_def getModelDirectory_result)

lemma getModelDirectoryTimes_stable:
  assumes "joinUri (documentUri e) ''whisper-models'' \<in> dirs w"
  shows "dirs (snd (getModelDirectoryTimes n e w)) = dirs w"
  using assms
  by (induction n arbitrary: w) (simp_all add: Let_def getModelDirectory_dirs)

lemma getModelDirectory_creates:
  assumes "rootAddressable e" and "has_create e" and "create_fault e = None"
  shows "joinUri (documentUri e) ''whisper-models'' \<in> dirs (snd (getModelDirectory e w))"
  using assms by (simp add: getModelDirectory_dirs)

lemma getModelDirectoryTimes_dirs:
  assumes "rootAddressable e" and "has_create e" and "create_fault e = None" and "1 \<le> n"
  shows "dirs (snd (getModelDirectoryTimes n e w)) = dirs (snd (getModelDirectory e w))"
proof -
  obtain k where n: "n = Suc k" using assms(4) by (cases n) auto
  show ?thesis
    using getModelDirectoryTimes_stable[OF getModelDirectory_creates[OF assms(1-3)], of k w]
    by (simp add: n Let_def)
qed

section \<open>Facts about the order of the calls\<close>

lemma getModelDirectory_Inr:
  "fst (getModelDirectory e w) = Inr directory \<Longrightarrow>
     directory = joinUri (documentUri e) ''whisper-models''"
  by (auto simp: getModelDirectory_result split: if_splits option.splits)

lemma directoryEvents_no_import: "ImportNative \<notin> set (directoryEvents e)"
  by (simp add: directoryEvents_def)

lemma downloadModel_new_events:
  "trace (snd (snd (downloadModel e model (st, w)))) =
     trace w @ newEvents w (snd (snd (downloadModel e model (st, w))))"
  "ImportNative \<notin> set (newEvents w (snd (snd (downloadModel e model (st, w)))))"
proof -
  have "\<exists>evs. trace (snd (snd (downloadModel e model (st, w)))) = trace w @ evs
          \<and> ImportNative \<notin> set evs"
  proof (cases "fst (getModelDirectory e w)")
    case (Inl err)
    have "trace (snd (snd (downloadModel e model (st, w)))) = trace w @ directoryEvents e"
      by (simp add: downloadModel_no_directory[OF Inl] getModelDirectory_trace)
    then show ?thesis using directoryEvents_no_import by blast
  next
    case (Inr directory)
    show ?thesis
    proof (cases "existingInfo_exists e")
      case True
      have "ImportNative \<notin> set (directoryEvents e
             @ [FileInfo (joinUri directory (filename model)),
                FileInfo (joinUri directory (filename model))])"
        by (simp add: directoryEvents_no_import)
      then show ?thesis
        using downloadModel_existing_trace[OF Inr True, of model st] by blast
    next
      case False
      have "ImportNative \<notin> set (directoryEvents e
             @ [FileInfo (joinUri directory (filename model)),
                DownloadAsync (url model) (joinUri directory (filename model))]
             @ map (\<lambda>t. ProgressPublished (id_m model) (fraction t)) (progress_ticks e)
             @ (if transferSucceeded e
                then [FileInfo (joinUri directory (filename model)),
                      ProgressPublished (id_m model) 1]
                else []))"
        by (auto simp: directoryEvents_no_import)
      then show ?thesis
        using downloadModel_absent_trace[OF Inr False, of model st] by blast
    qed
  qed
  then obtain evs where t: "trace (snd (snd (downloadModel e model (st, w)))) = trace w @ evs"
    and n: "ImportNative \<notin> set evs" by blast
  show "trace (snd (snd (downloadModel e model (st, w)))) =
     trace w @ newEvents w (snd (snd (downloadModel e model (st, w))))"
    using t by (simp add: newEvents_def)
  show "ImportNative \<notin> set (newEvents w (snd (snd (downloadModel e model (st, w)))))"
    using t n by (simp add: newEvents_def)
qed

lemma downloadModel_never_native_error:
  "fst (downloadModel e model (st, w)) \<noteq> Inl NativeModuleNotAvailable"
proof (cases "fst (getModelDirectory e w)")
  case (Inl err)
  then have "err \<noteq> NativeModuleNotAvailable"
    by (auto simp: getModelDirectory_result split: if_splits option.splits)
  then show ?thesis by (simp add: downloadModel_no_directory[OF Inl])
next
  case (Inr directory)
  show ?thesis
  proof (cases "existingInfo_exists e")
    case True
    then show ?thesis by (simp add: downloadModel_existing[OF Inr True])
  next
    case False
    then show ?thesis
      by (simp add: downloadModel_absent[OF Inr False] Let_def split: download_outcome.splits)
  qed
qed

lemma downloadModel_success:
  assumes "fst (downloadModel e model (st, w)) = Inr p"
  shows "p = localPath e model"
    and "\<not> existingInfo_exists e \<longrightarrow>
           DownloadAsync (url model) p \<in> set (newEvents w (snd (snd (downloadModel e model (st, w)))))
         \<and> downloadProgress (fst (snd (downloadModel e model (st, w)))) (id_m model) = Some 1"
proof -
  have "p = localPath e model \<and> (\<not> existingInfo_exists e \<longrightarrow>
           DownloadAsync (url model) p \<in> set (newEvents w (snd (snd (downloadModel e model (st, w)))))
         \<and> downloadProgress (fst (snd (downloadModel e model (st, w)))) (id_m model) = Some 1)"
  proof (rule downloadModel_shapes[where e=e and w=w and model=model and st=st])
    fix err
    assume "downloadModel e model (st, w) = (Inl err, st, snd (getModelDirectory e w))"
    then show ?thesis using assms by simp
  next
    fix directory
    assume "fst (getModelDirectory e w) = Inr directory" "existingInfo_exists e"
      "fst (downloadModel e model (st, w)) = Inr (joinUri directory (filename model))"
    then show ?thesis
      using assms getModelDirectory_Inr[of e w directory] by (simp add: localPath_def)
  next
    fix directory err
    assume "fst (downloadModel e model (st, w)) = Inl err"
    then show ?thesis using assms by simp
  next
    fix directory
    assume d: "fst (getModelDirectory e w) = Inr directory" and a: "\<not> existingInfo_exists e"
      and ok: "transferSucceeded e"
      and r: "fst (downloadModel e model (st, w)) = Inr (joinUri directory (filename model))"
      and s: "fst (snd (downloadModel e model (st, w))) =
         (fst (afterTicks e model (joinUri directory (filename model))
                 (st, snd (getModelDirectory e w))))
           \<lparr>modelFiles := (modelFiles st)(id_m model \<mapsto>
              \<lparr>path = joinUri directory (filename model),
               size_f = (case info_stats e of Info True sz \<Rightarrow> sizeOrZero sz | _ \<Rightarrow> 0)\<rparr>),
            downloadProgress := (downloadProgress (fst (afterTicks e model
                 (joinUri directory (filename model)) (st, snd (getModelDirectory e w)))))
                   (id_m model \<mapsto> 1),
            isDownloading := False\<rparr>"
    have p: "p = joinUri directory (filename model)" using assms r by simp
    have "DownloadAsync (url model) p
            \<in> set (newEvents w (snd (snd (downloadModel e model (st, w)))))"
      unfolding newEvents_append[OF downloadModel_absent_trace[OF d a]] by (simp add: p)
    then show ?thesis
      using getModelDirectory_Inr[OF d] by (simp add: s p localPath_def)
  qed
  then show "p = localPath e model"
    and "\<not> existingInfo_exists e \<longrightarrow>
           DownloadAsync (url model) p \<in> set (newEvents w (snd (snd (downloadModel e model (st, w)))))
         \<and> downloadProgress (fst (snd (downloadModel e model (st, w)))) (id_m model) = Some 1"
    by blast+
qed

lemma initializeWhisperModel_native_error:
  assumes known: "find (\<lambda>m. id_m m = modelId) WHISPER_MODELS = Some model"
  shows "(fst (initializeWhisperModel e modelId options (st, w)) = Inl NativeModuleNotAvailable)
           = (nativeModule e = None \<and> (\<exists>p. fst (downloadStep e model (st, w)) = Inr p))"
    and "fst (initializeWhisperModel e modelId options (st, w)) = Inl NativeModuleNotAvailable \<longrightarrow>
           fst (snd (initializeWhisperModel e modelId options (st, w))) =
             (fst (snd (downloadStep e model (st, w))))\<lparr>isInitializingModel := False\<rparr>
         \<and> trace (snd (snd (initializeWhisperModel e modelId options (st, w)))) =
             trace (snd (snd (downloadStep e model (st, w)))) @ [ImportNative]"
proof -
  have never: "fst (downloadStep e model (st, w)) \<noteq> Inl NativeModuleNotAvailable"
    by (simp add: downloadStep_def downloadModel_never_native_error)
  have "((fst (initializeWhisperModel e modelId options (st, w)) = Inl NativeModuleNotAvailable)
           = (nativeModule e = None \<and> (\<exists>p. fst (downloadStep e model (st, w)) = Inr p)))
      \<and> (fst (initializeWhisperModel e modelId options (st, w)) = Inl NativeModuleNotAvailable \<longrightarrow>
           fst (snd (initializeWhisperModel e modelId options (st, w))) =
             (fst (snd (downloadStep e model (st, w))))\<lparr>isInitializingModel := False\<rparr>
         \<and> trace (snd (snd (initializeWhisperModel e modelId options (st, w)))) =
             trace (snd (snd (downloadStep e model (st, w)))) @ [ImportNative])"
    by (rule initializeWhisperModel_shapes[OF known, where e=e and st=st and w=w
          and options=options])
       (use never in \<open>auto simp: downloadStep_def\<close>)
  then show "(fst (initializeWhisperModel e modelId options (st, w)) = Inl NativeModuleNotAvailable)
           = (nativeModule e = None \<and> (\<exists>p. fst (downloadStep e model (st, w)) = Inr p))"
    and "fst (initializeWhisperModel e modelId options (st, w)) = Inl NativeModuleNotAvailable \<longrightarrow>
           fst (snd (initializeWhisperModel e modelId options (st, w))) =
             (fst (snd (downloadStep e model (st, w))))\<lparr>isInitializingModel := False\<rparr>
         \<and> trace (snd (snd (initializeWhisperModel e modelId options (st, w)))) =
             trace (snd (snd (downloadStep e model (st, w)))) @ [ImportNative]"
    by blast+
qed

section \<open>The claims\<close>

text \<open>
  C1.  When a transfer has run to its end (the model directory is there, the stat
  found no file, and \<open>downloadAsync\<close> resolved with a status), \<open>downloadModel\<close>
  returns the local path if and only if the status is 0 or lies in 200..299; it then has
  stored an entry for the model and published progress 1.  For every other status it
  fails with \<open>Download failed with status: <status>\<close> and the cache of file infos is
  the one it started with, so no entry has been created.
\<close>

theorem downloadModel_success_iff_status:
  assumes "fst (getModelDirectory e w) = Inr directory"
      and "\<not> existingInfo_exists e"
      and "download_result e = DownloadStatus status"
  shows "((\<exists>p. fst (downloadModel e model (st, w)) = Inr p)
            \<longleftrightarrow> (status = 0 \<or> (200 \<le> status \<and> status \<le> 299)))
       \<and> ((status = 0 \<or> (200 \<le> status \<and> status \<le> 299)) \<longrightarrow>
            fst (downloadModel e model (st, w)) = Inr (joinUri directory (filename model))
          \<and> modelFiles (fst (snd (downloadModel e model (st, w)))) (id_m model) \<noteq> None
          \<and> downloadProgress (fst (snd (downloadModel e model (st, w)))) (id_m model) = Some 1)
       \<and> (\<not> (status = 0 \<or> (200 \<le> status \<and> status \<le> 299)) \<longrightarrow>
            fst (downloadModel e model (st, w)) = Inl (DownloadFailedWithStatus (Some status))
          \<and> modelFiles (fst (snd (downloadModel e model (st, w)))) = modelFiles st)"
proof -
  have range: "statusOk status \<longleftrightarrow> (status = 0 \<or> (200 \<le> status \<and> status \<le> 299))"
    by (auto simp: statusOk_def)
  have ts: "transferSucceeded e = statusOk status"
    using assms(3) by (simp add: transferSucceeded_def)
  have failure: "\<not> statusOk status \<Longrightarrow>
      fst (downloadModel e model (st, w)) = Inl (DownloadFailedWithStatus (Some status))"
    using assms(3) by (simp add: downloadModel_absent[OF assms(1,2)] Let_def)
  show ?thesis
    by (rule downloadModel_shapes[where e=e and w=w and model=model and st=st])
       (use assms range ts failure in \<open>auto simp: afterTicks_state\<close>)
qed

theorem downloadModel_success_iff_status_witness:
  "fst (getModelDirectory (device\<lparr>download_result := DownloadStatus 404\<rparr>) world0)
     = Inr ''file:///data/documents/whisper-models''
   \<and> \<not> existingInfo_exists (device\<lparr>download_result := DownloadStatus 404\<rparr>)
   \<and> download_result (device\<lparr>download_result := DownloadStatus 404\<rparr>) = DownloadStatus 404
   \<and> fst (downloadModel (device\<lparr>download_result := DownloadStatus 404\<rparr>) baseModel
            (initialState, world0)) = Inl (DownloadFailedWithStatus (Some 404))
   \<and> modelFiles (fst (snd (downloadModel (device\<lparr>download_result := DownloadStatus 404\<rparr>)
            baseModel (initialState, world0)))) = Map.empty
   \<and> download_result (device\<lparr>download_result := DownloadStatus 299\<rparr>) = DownloadStatus 299
   \<and> fst (downloadModel (device\<lparr>download_result := DownloadStatus 299\<rparr>) baseModel
            (initialState, world0)) = Inr ''file:///data/documents/whisper-models/ggml-base.bin''
   \<and> modelFiles (fst (snd (downloadModel (device\<lparr>download_result := DownloadStatus 299\<rparr>)
            baseModel (initialState, world0)))) ''base'' \<noteq> None"
proof -
  let ?e = "device\<lparr>download_result := DownloadStatus 404\<rparr>"
  let ?f = "device\<lparr>download_result := DownloadStatus 299\<rparr>"
  have h1: "fst (getModelDirectory ?e world0) = Inr ''file:///data/documents/whisper-models''"
    by (simp add: getModelDirectory_ok device_def)
  have h2: "\<not> existingInfo_exists ?e"
    by (simp add: existingInfo_exists_def device_def)
  have h3: "download_result ?e = DownloadStatus 404"
    by simp
  have g1: "fst (getModelDirectory ?f world0) = Inr ''file:///data/documents/whisper-models''"
    by (simp add: getModelDirectory_ok device_def)
  have g2: "\<not> existingInfo_exists ?f"
    by (simp add: existingInfo_exists_def device_def)
  have g3: "download_result ?f = DownloadStatus 299"
    by simp
  have m: "id_m baseModel = ''base''" "filename baseModel = ''ggml-base.bin''"
    by (simp_all add: baseModel_def WHISPER_MODELS_def)
  have failing: "fst (downloadModel ?e baseModel (initialState, world0))
        = Inl (DownloadFailedWithStatus (Some 404))
      \<and> modelFiles (fst (snd (downloadModel ?e baseModel (initialState, world0)))) = Map.empty"
    using downloadModel_success_iff_status[OF h1 h2 h3, of baseModel initialState]
    by (simp add: initialState_def)
  have passing: "fst (downloadModel ?f baseModel (initialState, world0))
        = Inr ''file:///data/documents/whisper-models/ggml-base.bin''
      \<and> modelFiles (fst (snd (downloadModel ?f baseModel (initialState, world0)))) ''base''
          \<noteq> None"
    using downloadModel_success_iff_status[OF g1 g2 g3, of baseModel initialState]
    by (simp add: m joinUri_def)
  show ?thesis
    using h1 h2 failing passing by simp
qed

text \<open>
  C2, the claim as stated fails.  A transfer that ended with status 404 after one tick
  leaves progress 1/4 for the model; when the file is then found on disk, the next
  \<open>downloadModel\<close> returns its path at once and the published progress is still 1/4,
  neither 1 nor absent.
\<close>

theorem downloadModel_existing_progress_counterexample:
  "reachable (fst afterFailedDownload)
   \<and> existingInfo_exists fileLeftBehind
   \<and> fst (downloadModel fileLeftBehind baseModel afterFailedDownload)
       = Inr ''file:///data/documents/whisper-models/ggml-base.bin''
   \<and> downloadProgress (fst (snd (downloadModel fileLeftBehind baseModel afterFailedDownload)))
       ''base'' = Some (1 / 4)
   \<and> getDownloadProgress (fst (snd (downloadModel fileLeftBehind baseModel afterFailedDownload)))
       ''base'' = 1 / 4"
proof -
  have "reachable (fst (snd (downloadModel interrupted baseModel (initialState, world0))))"
    by (rule reachable_download[OF reachable_initial])
  then have r: "reachable (fst afterFailedDownload)"
    by (simp add: afterFailedDownload_def)
  have ex: "existingInfo_exists fileLeftBehind"
    by (simp add: existingInfo_exists_def fileLeftBehind_def device_def)
  have run: "fst (downloadModel fileLeftBehind baseModel afterFailedDownload) =
               Inr ''file:///data/documents/whisper-models/ggml-base.bin''"
    "downloadProgress (fst (snd (downloadModel fileLeftBehind baseModel afterFailedDownload)))
       = [''base'' \<mapsto> 1 / 4]"
    by (simp_all add: afterFailedDownload_eq fileLeftBehind_def run_defs)
  show ?thesis
    using r ex by (simp add: run getDownloadProgress_def)
qed

text \<open>
  C2, amended.  When the model directory is there and the stat finds the file,
  \<open>downloadModel\<close> returns the local path, starts no transfer, stores the entry built
  from the second stat (size 0 when that stat throws or finds nothing), and leaves the
  download progress of every model, and the downloading flag, as they were.
\<close>

theorem downloadModel_existing_file:
  assumes "fst (getModelDirectory e w) = Inr directory" and "existingInfo_exists e"
  shows "fst (downloadModel e model (st, w)) = Inr (joinUri directory (filename model))
       \<and> filter isDownload (newEvents w (snd (snd (downloadModel e model (st, w))))) = []
       \<and> modelFiles (fst (snd (downloadModel e model (st, w)))) =
           (modelFiles st)(id_m model \<mapsto>
              \<lparr>path = joinUri directory (filename model),
               size_f = (case info_stats e of Info True sz \<Rightarrow> sizeOrZero sz | _ \<Rightarrow> 0)\<rparr>)
       \<and> downloadProgress (fst (snd (downloadModel e model (st, w)))) = downloadProgress st
       \<and> isDownloading (fst (snd (downloadModel e model (st, w)))) = isDownloading st"
proof -
  have "filter isDownload (newEvents w (snd (snd (downloadModel e model (st, w))))) = []"
    unfolding newEvents_append[OF downloadModel_existing_trace[OF assms]]
    by (simp add: filter_directoryEvents)
  then show ?thesis
    by (simp add: downloadModel_existing[OF assms] updateModelFileInfo_state)
qed

theorem downloadModel_existing_file_witness:
  "fst (getModelDirectory fileLeftBehind world0) = Inr ''file:///data/documents/whisper-models''
   \<and> existingInfo_exists fileLeftBehind
   \<and> fst (downloadModel fileLeftBehind baseModel (initialState, world0))
        = Inr ''file:///data/documents/whisper-models/ggml-base.bin''
   \<and> modelFiles (fst (snd (downloadModel fileLeftBehind baseModel (initialState, world0)))) ''base''
        = Some \<lparr>path = ''file:///data/documents/whisper-models/ggml-base.bin'', size_f = 9\<rparr>
   \<and> downloadProgress (fst (snd (downloadModel fileLeftBehind baseModel (initialState, world0))))
        = Map.empty"
proof -
  have h1: "fst (getModelDirectory fileLeftBehind world0) = Inr ''file:///data/documents/whisper-models''"
    by (simp add: fileLeftBehind_def run_defs)
  have h2: "existingInfo_exists fileLeftBehind"
    by (simp add: existingInfo_exists_def fileLeftBehind_def device_def)
  show ?thesis
    using downloadModel_existing_file[OF h1 h2, of baseModel initialState] h1 h2
    by (simp add: fileLeftBehind_def device_def baseModel_def WHISPER_MODELS_def joinUri_def
        sizeOrZero_def initialState_def)
qed

text \<open>
  C3, the claim as stated fails.  The callback publishes bytesWritten / bytesExpected
  as it comes, and the hook publishes 1 after a successful transfer.  On a transfer
  that reports 1000/2000 and then 2500/2000 and ends with status 200, the fractions
  published for the model are 1/2, 5/4, 1: the sequence goes down at its last step.
\<close>

theorem downloadModel_progress_counterexample:
  "fst (downloadModel overshooting baseModel (initialState, world0))
     = Inr ''file:///data/documents/whisper-models/ggml-base.bin''
   \<and> publishedFor ''base'' (newEvents world0
        (snd (snd (downloadModel overshooting baseModel (initialState, world0)))))
     = [1 / 2, 5 / 4, 1]
   \<and> \<not> sorted (publishedFor ''base'' (newEvents world0
        (snd (snd (downloadModel overshooting baseModel (initialState, world0))))))"
proof -
  have run: "fst (downloadModel overshooting baseModel (initialState, world0))
       = Inr ''file:///data/documents/whisper-models/ggml-base.bin''"
    "trace (snd (snd (downloadModel overshooting baseModel (initialState, world0)))) =
       [PathsDocument, DirectoryCreate ''file:///data/documents/whisper-models'',
        FileInfo ''file:///data/documents/whisper-models/ggml-base.bin'',
        DownloadAsync
          ''https://huggingface.co/ggerganov/whisper.cpp/resolve/main/ggml-base.bin''
          ''file:///data/documents/whisper-models/ggml-base.bin'',
        ProgressPublished ''base'' (1 / 2), ProgressPublished ''base'' (5 / 4),
        FileInfo ''file:///data/documents/whisper-models/ggml-base.bin'',
        ProgressPublished ''base'' 1]"
    by (simp_all add: overshooting_def run_defs)
  have "trace world0 = []" by (simp add: world0_def)
  then show ?thesis by (simp add: run newEvents_def)
qed

text \<open>
  C3, amended.  In a download run (directory there, no file found) the fractions
  published for the model are, in order, bytesWritten / bytesExpected of each tick
  (0 when the expected total is not positive), followed by exactly 1 when the transfer
  ended with a successful status.  The sequence is non-decreasing whenever the ticks
  report one positive expected total and byte counts that grow and do not exceed it.
  After a successful status the last published value, and the stored progress, is 1.
\<close>

theorem downloadModel_published_progress:
  assumes "fst (getModelDirectory e w) = Inr directory" and "\<not> existingInfo_exists e"
  shows "publishedFor (id_m model) (newEvents w (snd (snd (downloadModel e model (st, w)))))
           = map fraction (progress_ticks e) @ (if transferSucceeded e then [1] else [])
       \<and> (steadyTicks expected (progress_ticks e) \<longrightarrow>
            sorted (publishedFor (id_m model)
                      (newEvents w (snd (snd (downloadModel e model (st, w)))))))
       \<and> (transferSucceeded e \<longrightarrow>
            last (publishedFor (id_m model)
                    (newEvents w (snd (snd (downloadModel e model (st, w)))))) = 1
          \<and> downloadProgress (fst (snd (downloadModel e model (st, w)))) (id_m model) = Some 1)"
proof -
  have pub: "publishedFor (id_m model) (newEvents w (snd (snd (downloadModel e model (st, w)))))
           = map fraction (progress_ticks e) @ (if transferSucceeded e then [1] else [])"
    unfolding newEvents_append[OF downloadModel_absent_trace[OF assms]]
    by (simp add: publishedFor_append publishedFor_directoryEvents publishedFor_ticks)
  have srt: "steadyTicks expected (progress_ticks e) \<longrightarrow>
      sorted (map fraction (progress_ticks e) @ (if transferSucceeded e then [1] else []))"
    using fraction_steady[of expected "progress_ticks e"] by (auto simp: sorted_append)
  have fin: "transferSucceeded e \<longrightarrow>
      downloadProgress (fst (snd (downloadModel e model (st, w)))) (id_m model) = Some 1"
    by (auto simp: downloadModel_absent[OF assms] transferSucceeded_def Let_def
        split: download_outcome.splits)
  show ?thesis using srt fin unfolding pub by simp
qed

theorem downloadModel_published_progress_witness:
  "fst (getModelDirectory device world0) = Inr ''file:///data/documents/whisper-models''
   \<and> \<not> existingInfo_exists device
   \<and> steadyTicks 2000 (progress_ticks device)
   \<and> transferSucceeded device
   \<and> publishedFor ''base'' (newEvents world0
        (snd (snd (downloadModel device baseModel (initialState, world0))))) = [1 / 4, 1, 1]
   \<and> sorted (publishedFor ''base'' (newEvents world0
        (snd (snd (downloadModel device baseModel (initialState, world0))))))
   \<and> downloadProgress (fst (snd (downloadModel device baseModel (initialState, world0))))
        ''base'' = Some 1"
proof -
  have h1: "fst (getModelDirectory device world0) = Inr ''file:///data/documents/whisper-models''"
    by (simp add: getModelDirectory_ok device_def)
  have h2: "\<not> existingInfo_exists device"
    by (simp add: existingInfo_exists_def device_def)
  have h3: "steadyTicks 2000 (progress_ticks device)"
    by (simp add: steadyTicks_def device_def)
  have h4: "transferSucceeded device"
    by (simp add: transferSucceeded_def statusOk_def device_def)
  have m: "id_m baseModel = ''base''"
    by (simp add: baseModel_def WHISPER_MODELS_def)
  have f: "map fraction (progress_ticks device) = [1 / 4, 1]"
    by (simp add: device_def fraction_def)
  show ?thesis
    using downloadModel_published_progress[OF h1 h2, of baseModel initialState 2000] h1 h2 h3 h4
    by (simp add: m f)
qed

text \<open>
  C4.  For a model id that is not in the catalog, \<open>initializeWhisperModel\<close> fails with
  \<open>Invalid model selected\<close>; the state of the hook, the directories and the trace of
  calls to the file system, the network and the native module are the ones it started
  with.
\<close>

theorem initializeWhisperModel_unknown_id:
  assumes "modelId \<notin> set (map id_m WHISPER_MODELS)"
  shows "initializeWhisperModel e modelId options (st, w) = (Inl InvalidModelSelected, st, w)"
proof -
  have "find (\<lambda>m. id_m m = modelId) WHISPER_MODELS = None"
    using assms by (auto simp: find_None_iff)
  then show ?thesis by (simp add: initializeWhisperModel_def)
qed

theorem initializeWhisperModel_unknown_id_witness:
  "''medium'' \<notin> set (map id_m WHISPER_MODELS)
   \<and> initializeWhisperModel device ''medium'' withVad (initialState, world0)
       = (Inl InvalidModelSelected, initialState, world0)"
proof -
  have h: "''medium'' \<notin> set (map id_m WHISPER_MODELS)"
    by (simp add: WHISPER_MODELS_def)
  show ?thesis
    using initializeWhisperModel_unknown_id[OF h, of device withVad initialState world0] h
    by simp
qed

text \<open>
  C5.  The call does not fail when the VAD initialisation throws, and it returns the
  engine handle; but the \<open>vadContext\<close> it returns is the state variable the callback
  captured, not the outcome of this initialisation.  After a first initialisation
  that obtained VAD handle 7, an initialisation of another model whose VAD
  initialisation throws returns engine handle 2 together with the old VAD handle 7,
  and leaves that handle in the state.
\<close>

theorem initializeWhisperModel_vad_failure_returns_stale_handle:
  "reachable (fst afterInitWithVad)
   \<and> vadContext (fst afterInitWithVad) = Some 7
   \<and> map_option initWhisperVad (nativeModule vadBroken)
       = Some (Some (VadThrows ''VAD model rejected''))
   \<and> fst (initializeWhisperModel vadBroken ''small'' withVad afterInitWithVad)
       = Inr \<lparr>whisperContext_r = \<lparr>handle = 2, has_release = True\<rparr>, vadContext_r = Some 7\<rparr>
   \<and> vadContext (fst (snd (initializeWhisperModel vadBroken ''small'' withVad afterInitWithVad)))
       = Some 7
   \<and> currentModelId (fst (snd (initializeWhisperModel vadBroken ''small'' withVad
        afterInitWithVad))) = Some ''small''
   \<and> console (snd (snd (initializeWhisperModel vadBroken ''small'' withVad afterInitWithVad)))
       = [Warn ''VAD initialization failed:'']"
proof -
  have run: "fst (initializeWhisperModel vadBroken ''small'' withVad afterInitWithVad)
       = Inr \<lparr>whisperContext_r = \<lparr>handle = 2, has_release = True\<rparr>, vadContext_r = Some 7\<rparr>"
    "vadContext (fst (snd (initializeWhisperModel vadBroken ''small'' withVad afterInitWithVad)))
       = Some 7"
    "currentModelId (fst (snd (initializeWhisperModel vadBroken ''small'' withVad
        afterInitWithVad))) = Some ''small''"
    "console (snd (snd (initializeWhisperModel vadBroken ''small'' withVad afterInitWithVad)))
       = [Warn ''VAD initialization failed:'']"
    by (simp_all add: afterInitWithVad_eq vadBroken_def init_defs run_defs)
  have vad: "map_option initWhisperVad (nativeModule vadBroken)
       = Some (Some (VadThrows ''VAD model rejected''))"
    by (simp add: nativeModule_def vadBroken_def)
  have old: "vadContext (fst afterInitWithVad) = Some 7"
    by (simp add: afterInitWithVad_eq)
  show ?thesis
    using afterInitWithVad_reachable by (simp add: run vad old)
qed

text \<open>
  C6, the claim as stated fails.  The model is the current one, but \<open>file.delete()\<close>
  throws: the exception leaves \<open>deleteModel\<close> before any setter runs, so the current
  model id, the engine handle, the VAD handle and the two entries of the model are
  all still there.
\<close>

theorem deleteModel_current_counterexample:
  "reachable (fst afterInitWithVad)
   \<and> currentModelId (fst afterInitWithVad) = Some ''base''
   \<and> fst (deleteModel deleteRefused ''base'' afterInitWithVad) = Inl (PlatformError ''EACCES'')
   \<and> currentModelId (fst (snd (deleteModel deleteRefused ''base'' afterInitWithVad)))
       = Some ''base''
   \<and> whisperContext (fst (snd (deleteModel deleteRefused ''base'' afterInitWithVad)))
       = Some \<lparr>handle = 1, has_release = True\<rparr>
   \<and> vadContext (fst (snd (deleteModel deleteRefused ''base'' afterInitWithVad))) = Some 7
   \<and> modelFiles (fst (snd (deleteModel deleteRefused ''base'' afterInitWithVad))) ''base''
       \<noteq> None
   \<and> downloadProgress (fst (snd (deleteModel deleteRefused ''base'' afterInitWithVad))) ''base''
       = Some 1"
proof -
  have run: "deleteModel deleteRefused ''base'' afterInitWithVad =
      (Inl (PlatformError ''EACCES''), fst afterInitWithVad,
       report (Error ''Failed to delete model'')
         (emit (FileDelete ''file:///data/documents/whisper-models/ggml-base.bin'')
            (emit (FileInfo ''file:///data/documents/whisper-models/ggml-base.bin'')
               (snd afterInitWithVad))))"
    using deleteModel_delete_throws[of "fst afterInitWithVad" "''base''" _ deleteRefused
        "Some 2000" "''EACCES''" "snd afterInitWithVad"]
    by (simp add: afterInitWithVad_eq deleteRefused_def device_def)
  show ?thesis
    using afterInitWithVad_reachable unfolding run by (simp add: afterInitWithVad_eq)
qed

text \<open>
  C6, amended.  In a reachable state whose current model is the one to delete, and
  when neither the stat nor the deletion of the file throws, \<open>deleteModel\<close> returns
  normally with the current model id, the engine handle and the VAD handle cleared
  and the file info and the progress of the model removed, whatever \<open>release()\<close>
  does: an exception of \<open>release()\<close> only adds a warning to the console.
\<close>

theorem deleteModel_current_model:
  assumes "reachable st"
      and "currentModelId st = Some modelId"
      and "fileDeletionSucceeds e"
  shows "fst (deleteModel e modelId (st, w)) = Inr ()
       \<and> currentModelId (fst (snd (deleteModel e modelId (st, w)))) = None
       \<and> whisperContext (fst (snd (deleteModel e modelId (st, w)))) = None
       \<and> vadContext (fst (snd (deleteModel e modelId (st, w)))) = None
       \<and> modelFiles (fst (snd (deleteModel e modelId (st, w)))) modelId = None
       \<and> downloadProgress (fst (snd (deleteModel e modelId (st, w)))) modelId = None
       \<and> filter isRelease (newEvents w (snd (snd (deleteModel e modelId (st, w)))))
           = releaseCalls st
       \<and> console (snd (snd (deleteModel e modelId (st, w))))
           = console w @ releaseWarnings e st"
proof -
  have "currentDownloaded st"
    using reachable_invariant[OF assms(1)] by simp
  then obtain fileInfo where entry: "modelFiles st modelId = Some fileInfo"
    using assms(2) by (auto simp: currentDownloaded_def)
  obtain existsOnDisk sz where info: "delete_info e = Info existsOnDisk sz"
    and fault: "existsOnDisk \<longrightarrow> delete_fault e = None"
    using fileDeletionSucceeds_cases[OF assms(3)] by blast
  have rel: "filter isRelease (releaseCalls st) = releaseCalls st"
    by (simp add: releaseCalls_def split: option.splits)
  show ?thesis
    by (cases existsOnDisk)
       (simp_all add: deleteModel_deleted[OF entry info fault] forgetModel_current[OF assms(2)]
          newEvents_def rel)
qed

theorem deleteModel_current_model_witness:
  "reachable (fst afterInitWithVad)
   \<and> currentModelId (fst afterInitWithVad) = Some ''base''
   \<and> fileDeletionSucceeds releaseThrows
   \<and> release_fault releaseThrows = Some ''context already released''
   \<and> fst (deleteModel releaseThrows ''base'' (fst afterInitWithVad, world0)) = Inr ()
   \<and> currentModelId (fst (snd (deleteModel releaseThrows ''base''
         (fst afterInitWithVad, world0)))) = None
   \<and> whisperContext (fst (snd (deleteModel releaseThrows ''base''
         (fst afterInitWithVad, world0)))) = None
   \<and> vadContext (fst (snd (deleteModel releaseThrows ''base''
         (fst afterInitWithVad, world0)))) = None
   \<and> filter isRelease (newEvents world0 (snd (snd (deleteModel releaseThrows ''base''
         (fst afterInitWithVad, world0))))) = [Release 1]
   \<and> console (snd (snd (deleteModel releaseThrows ''base'' (fst afterInitWithVad, world0))))
       = [Warn ''Failed to release Whisper context during model deletion:'']"
proof -
  have h2: "currentModelId (fst afterInitWithVad) = Some ''base''"
    by (simp add: afterInitWithVad_eq)
  have h3: "fileDeletionSucceeds releaseThrows"
    by (simp add: fileDeletionSucceeds_def releaseThrows_def device_def)
  have c: "releaseCalls (fst afterInitWithVad) = [Release 1]"
    "releaseWarnings releaseThrows (fst afterInitWithVad)
       = [Warn ''Failed to release Whisper context during model deletion:'']"
    by (simp_all add: releaseCalls_def releaseWarnings_def releaseThrows_def
        afterInitWithVad_eq)
  have h4: "release_fault releaseThrows = Some ''context already released''"
    by (simp add: releaseThrows_def)
  have w: "console world0 = []"
    by (simp add: world0_def)
  show ?thesis
    using deleteModel_current_model[OF afterInitWithVad_reachable h2 h3, of world0]
      afterInitWithVad_reachable h2 h3 h4
    by (simp add: c w)
qed

text \<open>
  C7.  In every reachable state the current model id is set if and only if the engine
  handle is (\<open>slotConsistent\<close>), and each of \<open>initializeWhisperModel\<close>,
  \<open>resetWhisperContext\<close> and \<open>deleteModel\<close> takes a state with this property to a
  state with this property, whatever the collaborators answer: the first sets the two
  together after \<open>initWhisper\<close> has returned, the other two clear them together.
\<close>

theorem reachable_current_iff_engine:
  "(reachable st \<longrightarrow> (currentModelId st \<noteq> None) = (whisperContext st \<noteq> None))
   \<and> (slotConsistent s \<longrightarrow>
         slotConsistent (fst (snd (initializeWhisperModel e modelId options (s, w))))
       \<and> slotConsistent (resetWhisperContext s)
       \<and> slotConsistent (fst (snd (deleteModel e modelId (s, w)))))"
proof -
  have "reachable st \<longrightarrow> (currentModelId st \<noteq> None) = (whisperContext st \<noteq> None)"
    using reachable_invariant[of st] by (simp add: slotConsistent_def)
  moreover have "slotConsistent s \<longrightarrow>
         slotConsistent (fst (snd (initializeWhisperModel e modelId options (s, w))))
       \<and> slotConsistent (resetWhisperContext s)
       \<and> slotConsistent (fst (snd (deleteModel e modelId (s, w))))"
    by (simp add: slot_initialize slot_delete invariant_reset)
  ultimately show ?thesis by (rule conjI)
qed

theorem reachable_current_iff_engine_witness:
  "reachable (fst afterInitWithVad)
   \<and> slotConsistent (fst afterInitWithVad)
   \<and> currentModelId (fst afterInitWithVad) = Some ''base''
   \<and> whisperContext (fst afterInitWithVad) = Some \<lparr>handle = 1, has_release = True\<rparr>
   \<and> slotConsistent (fst (snd (initializeWhisperModel vadBroken ''small'' withVad
        (fst afterInitWithVad, world0))))
   \<and> slotConsistent (resetWhisperContext (fst afterInitWithVad))
   \<and> slotConsistent (fst (snd (deleteModel releaseThrows ''small''
        (fst afterInitWithVad, world0))))"
proof -
  have r: "reachable (fst afterInitWithVad)"
    by (rule afterInitWithVad_reachable)
  have c: "currentModelId (fst afterInitWithVad) = Some ''base''"
    "whisperContext (fst afterInitWithVad) = Some \<lparr>handle = 1, has_release = True\<rparr>"
    by (simp_all add: afterInitWithVad_eq)
  have s: "slotConsistent (fst afterInitWithVad)"
    using reachable_current_iff_engine[of "fst afterInitWithVad" "fst afterInitWithVad"
      vadBroken "''small''" withVad world0] r
    by (simp add: slotConsistent_def)
  have i: "slotConsistent (fst (snd (initializeWhisperModel vadBroken ''small'' withVad
        (fst afterInitWithVad, world0))))"
    using reachable_current_iff_engine[of "fst afterInitWithVad" "fst afterInitWithVad"
      vadBroken "''small''" withVad world0] s by blast
  have d: "slotConsistent (resetWhisperContext (fst afterInitWithVad))"
    "slotConsistent (fst (snd (deleteModel releaseThrows ''small''
        (fst afterInitWithVad, world0))))"
    using reachable_current_iff_engine[of "fst afterInitWithVad" "fst afterInitWithVad"
      releaseThrows "''small''" withVad world0] s by blast+
  show ?thesis
    using r s c i d by simp
qed

text \<open>
  C8, the claim as stated fails.  A first call creates the directory; a later call on
  a platform whose \<open>directory.create\<close> throws fails, by rethrowing that exception,
  although the document root resolves and has a uri.
\<close>

theorem getModelDirectory_counterexample:
  "fst (getModelDirectory device world0) = Inr ''file:///data/documents/whisper-models''
   \<and> rootAddressable readOnly
   \<and> fst (getModelDirectory readOnly (snd (getModelDirectory device world0)))
       = Inl (PlatformError ''EACCES'')"
  by (simp add: getModelDirectory_result rootAddressable_def documentUri_def readOnly_def
      device_def documents_def joinUri_def)

text \<open>
  C8, amended.  Every call asks the platform for the same directory
  \<open><root>/whisper-models\<close> with \<open>idempotent\<close> and \<open>intermediates\<close> set.  On a platform
  whose root is addressable and whose \<open>create\<close> exists and does not throw, \<open>n \<ge> 1\<close>
  calls in a row all return that directory and leave the directories the first call
  left: the directory is there once and nothing else was added by the later calls.
  A call fails with \<open>Document directory is not available.\<close> exactly when the root
  cannot be resolved or has no (non-empty) uri, and it fails at all exactly then or
  when \<open>create\<close> throws.
\<close>

theorem getModelDirectory_idempotent:
  assumes "rootAddressable e" and "has_create e" and "create_fault e = None" and "1 \<le> n"
  shows "fst (getModelDirectoryTimes n e w) =
           replicate n (Inr (joinUri (documentUri e) ''whisper-models''))
       \<and> dirs (snd (getModelDirectoryTimes n e w)) = dirs (snd (getModelDirectory e w))
       \<and> joinUri (documentUri e) ''whisper-models'' \<in> dirs (snd (getModelDirectoryTimes n e w))
       \<and> dirs (snd (getModelDirectoryTimes n e w))
            \<subseteq> insert (joinUri (documentUri e) ''whisper-models'')
                (insert (documentUri e) (dirs w))
       \<and> ((fst (getModelDirectory e' w') = Inl DocumentDirectoryNotAvailable)
            = (\<not> rootAddressable e'))
       \<and> ((\<exists>err. fst (getModelDirectory e' w') = Inl err)
            = (\<not> rootAddressable e' \<or> (has_create e' \<and> create_fault e' \<noteq> None)))"
proof -
  have d: "dirs (snd (getModelDirectoryTimes n e w)) = dirs (snd (getModelDirectory e w))"
    by (rule getModelDirectoryTimes_dirs[OF assms])
  have f1: "(fst (getModelDirectory e' w') = Inl DocumentDirectoryNotAvailable)
            = (\<not> rootAddressable e')"
    by (simp add: getModelDirectory_result split: option.splits)
  have f2: "(\<exists>err. fst (getModelDirectory e' w') = Inl err)
            = (\<not> rootAddressable e' \<or> (has_create e' \<and> create_fault e' \<noteq> None))"
    by (auto simp: getModelDirectory_result split: option.splits)
  show ?thesis
    unfolding d using assms(1-3) f1 f2
    by (simp add: getModelDirectoryTimes_results getModelDirectory_dirs) blast
qed

theorem getModelDirectory_idempotent_witness:
  "rootAddressable device \<and> has_create device \<and> create_fault device = None \<and> (1::nat) \<le> 3
   \<and> fst (getModelDirectoryTimes 3 device world0)
       = [Inr ''file:///data/documents/whisper-models'',
          Inr ''file:///data/documents/whisper-models'',
          Inr ''file:///data/documents/whisper-models'']
   \<and> dirs (snd (getModelDirectoryTimes 3 device world0))
       = {''file:///data/documents/whisper-models'', ''file:///data/documents''}
   \<and> fst (getModelDirectory (device\<lparr>document := DocumentDirectory (Some [])\<rparr>) world0)
       = Inl DocumentDirectoryNotAvailable"
proof -
  have h1: "rootAddressable device"
    by (simp add: rootAddressable_def device_def documents_def)
  have h2: "has_create device" and h3: "create_fault device = None"
    by (simp_all add: device_def)
  have h4: "(1::nat) \<le> 3" by simp
  have u: "documentUri device = ''file:///data/documents''"
    by (simp add: documentUri_def device_def documents_def)
  have r: "replicate 3 (Inr ''file:///data/documents/whisper-models'' :: error + string)
       = [Inr ''file:///data/documents/whisper-models'',
          Inr ''file:///data/documents/whisper-models'',
          Inr ''file:///data/documents/whisper-models'']"
    by (simp add: numeral_3_eq_3)
  have one: "dirs (snd (getModelDirectory device world0))
       = {''file:///data/documents/whisper-models'', ''file:///data/documents''}"
    by (simp add: getModelDirectory_dirs h1 h2 h3 u joinUri_def world0_def documents_def)
  have bad: "\<not> rootAddressable (device\<lparr>document := DocumentDirectory (Some [])\<rparr>)"
    by (simp add: rootAddressable_def)
  show ?thesis
    using getModelDirectory_idempotent[OF h1 h2 h3 h4, of world0
        "device\<lparr>document := DocumentDirectory (Some [])\<rparr>" world0] h1 h2 h3 bad
    by (simp add: u joinUri_def r one)
qed

text \<open>
  C9.  When the model has an entry, the stat finds its file and \<open>file.delete()\<close>
  throws, \<open>deleteModel\<close> fails with that exception and the state of the hook is the
  one it started with; the only traces are the two calls to the file system and the
  logged error.
\<close>

theorem deleteModel_file_failure:
  assumes "modelFiles st modelId = Some fileInfo"
      and "delete_info e = Info True sz"
      and "delete_fault e = Some x"
  shows "fst (deleteModel e modelId (st, w)) = Inl (PlatformError x)
       \<and> fst (snd (deleteModel e modelId (st, w))) = st
       \<and> newEvents w (snd (snd (deleteModel e modelId (st, w))))
           = [FileInfo (path fileInfo), FileDelete (path fileInfo)]
       \<and> console (snd (snd (deleteModel e modelId (st, w))))
           = console w @ [Error ''Failed to delete model'']"
  by (simp add: deleteModel_delete_throws[OF assms] newEvents_def)

theorem deleteModel_file_failure_witness:
  "modelFiles (fst afterInitWithVad) ''base''
     = Some \<lparr>path = ''file:///data/documents/whisper-models/ggml-base.bin'', size_f = 2000\<rparr>
   \<and> delete_info deleteRefused = Info True (Some 2000)
   \<and> delete_fault deleteRefused = Some ''EACCES''
   \<and> fst (deleteModel deleteRefused ''base'' (fst afterInitWithVad, snd afterInitWithVad))
       = Inl (PlatformError ''EACCES'')
   \<and> fst (snd (deleteModel deleteRefused ''base'' (fst afterInitWithVad, snd afterInitWithVad)))
       = fst afterInitWithVad"
proof -
  have h1: "modelFiles (fst afterInitWithVad) ''base''
     = Some \<lparr>path = ''file:///data/documents/whisper-models/ggml-base.bin'', size_f = 2000\<rparr>"
    by (simp add: afterInitWithVad_eq)
  have h2: "delete_info deleteRefused = Info True (Some 2000)"
    by (simp add: deleteRefused_def device_def)
  have h3: "delete_fault deleteRefused = Some ''EACCES''"
    by (simp add: deleteRefused_def)
  show ?thesis
    using deleteModel_file_failure[OF h1 h2 h3, of "snd afterInitWithVad"] h1 h2 h3
    by simp
qed

text \<open>
  C10.  For a model of the catalog, the call to \<open>downloadModel\<close> comes before the
  native module is probed: none of its calls is the import.  When the native module
  is unavailable, the action fails with \<open>Native module 'whisper.rn' not available\<close>
  as soon as that call has returned a path; and whenever it fails with this error,
  the download step has returned the local path, the state is the one that step left
  (with the initialising flag cleared), the model has its file info, the import is the
  one call made after the calls of the download step, and, when the file was absent,
  the transfer was started and the progress of the model is 1.
\<close>

theorem initializeWhisperModel_downloads_before_probing:
  assumes "find (\<lambda>m. id_m m = modelId) WHISPER_MODELS = Some model"
  shows "ImportNative \<notin> set (newEvents w (snd (snd (downloadStep e model (st, w)))))
       \<and> (nativeModule e = None \<longrightarrow>
            (fst (initializeWhisperModel e modelId options (st, w)) = Inl NativeModuleNotAvailable)
              = (fst (downloadStep e model (st, w)) = Inr (localPath e model)))
       \<and> (fst (initializeWhisperModel e modelId options (st, w)) = Inl NativeModuleNotAvailable \<longrightarrow>
            nativeModule e = None
          \<and> fst (downloadStep e model (st, w)) = Inr (localPath e model)
          \<and> fst (snd (initializeWhisperModel e modelId options (st, w))) =
              (fst (snd (downloadStep e model (st, w))))\<lparr>isInitializingModel := False\<rparr>
          \<and> modelFiles (fst (snd (initializeWhisperModel e modelId options (st, w)))) modelId =
              Some \<lparr>path = localPath e model,
                    size_f = (case info_stats e of Info True sz \<Rightarrow> sizeOrZero sz | _ \<Rightarrow> 0)\<rparr>
          \<and> newEvents w (snd (snd (initializeWhisperModel e modelId options (st, w)))) =
              newEvents w (snd (snd (downloadStep e model (st, w)))) @ [ImportNative]
          \<and> (\<not> existingInfo_exists e \<longrightarrow>
                DownloadAsync (url model) (localPath e model)
                  \<in> set (newEvents w (snd (snd (downloadStep e model (st, w)))))
              \<and> downloadProgress (fst (snd (initializeWhisperModel e modelId options (st, w))))
                  modelId = Some 1))"
proof -
  let ?st1 = "st\<lparr>isInitializingModel := True\<rparr>"
  let ?D = "downloadModel e model (?st1, w)"
  let ?I = "initializeWhisperModel e modelId options (st, w)"
  have D: "downloadStep e model (st, w) = ?D"
    by (simp add: downloadStep_def)
  have idm: "id_m model = modelId"
    by (rule find_id[OF assms])
  have iff0: "(fst ?I = Inl NativeModuleNotAvailable)
               = (nativeModule e = None \<and> (\<exists>p. fst ?D = Inr p))"
    using initializeWhisperModel_native_error(1)[OF assms, of e options st w]
    by (simp add: D)
  have ex: "(\<exists>p. fst ?D = Inr p) = (fst ?D = Inr (localPath e model))"
  proof
    assume "\<exists>p. fst ?D = Inr p"
    then obtain p where p: "fst ?D = Inr p" ..
    have "p = localPath e model" by (rule downloadModel_success(1)[OF p])
    then show "fst ?D = Inr (localPath e model)" using p by simp
  next
    assume "fst ?D = Inr (localPath e model)"
    then show "\<exists>p. fst ?D = Inr p" ..
  qed
  have c1: "ImportNative \<notin> set (newEvents w (snd (snd (downloadStep e model (st, w)))))"
    unfolding D by (rule downloadModel_new_events(2))
  have c2: "nativeModule e = None \<longrightarrow>
      (fst ?I = Inl NativeModuleNotAvailable)
        = (fst (downloadStep e model (st, w)) = Inr (localPath e model))"
    unfolding D iff0 ex by simp
  have c3: "fst ?I = Inl NativeModuleNotAvailable \<longrightarrow>
            nativeModule e = None
          \<and> fst (downloadStep e model (st, w)) = Inr (localPath e model)
          \<and> fst (snd ?I) = (fst (snd (downloadStep e model (st, w))))\<lparr>isInitializingModel := False\<rparr>
          \<and> modelFiles (fst (snd ?I)) modelId =
              Some \<lparr>path = localPath e model,
                    size_f = (case info_stats e of Info True sz \<Rightarrow> sizeOrZero sz | _ \<Rightarrow> 0)\<rparr>
          \<and> newEvents w (snd (snd ?I)) =
              newEvents w (snd (snd (downloadStep e model (st, w)))) @ [ImportNative]
          \<and> (\<not> existingInfo_exists e \<longrightarrow>
                DownloadAsync (url model) (localPath e model)
                  \<in> set (newEvents w (snd (snd (downloadStep e model (st, w)))))
              \<and> downloadProgress (fst (snd ?I)) modelId = Some 1)"
  proof
    assume failed: "fst ?I = Inl NativeModuleNotAvailable"
    have n: "nativeModule e = None" and ok: "fst ?D = Inr (localPath e model)"
      using failed iff0 ex by simp_all
    have s: "fst (snd ?I) = (fst (snd ?D))\<lparr>isInitializingModel := False\<rparr>"
      and t: "trace (snd (snd ?I)) = trace (snd (snd ?D)) @ [ImportNative]"
      using initializeWhisperModel_native_error(2)[OF assms, of e options st w] failed
      by (simp_all add: D)
    have entry: "modelFiles (fst (snd ?D)) modelId =
              Some \<lparr>path = localPath e model,
                    size_f = (case info_stats e of Info True sz \<Rightarrow> sizeOrZero sz | _ \<Rightarrow> 0)\<rparr>"
      using downloadModel_success_entry[OF ok] idm by simp
    have m: "modelFiles (fst (snd ?I)) modelId =
              Some \<lparr>path = localPath e model,
                    size_f = (case info_stats e of Info True sz \<Rightarrow> sizeOrZero sz | _ \<Rightarrow> 0)\<rparr>"
      unfolding s using entry by simp
    obtain evs where dv: "trace (snd (snd ?D)) = trace w @ evs"
      using downloadModel_new_events(1)[of e model ?st1 w] by blast
    have ev: "newEvents w (snd (snd ?I)) = newEvents w (snd (snd ?D)) @ [ImportNative]"
      unfolding newEvents_def t dv by simp
    have dl: "\<not> existingInfo_exists e \<longrightarrow>
                DownloadAsync (url model) (localPath e model) \<in> set (newEvents w (snd (snd ?D)))
              \<and> downloadProgress (fst (snd ?D)) modelId = Some 1"
      using downloadModel_success(2)[OF ok] idm by simp
    have dl': "\<not> existingInfo_exists e \<longrightarrow>
                DownloadAsync (url model) (localPath e model) \<in> set (newEvents w (snd (snd ?D)))
              \<and> downloadProgress (fst (snd ?I)) modelId = Some 1"
      unfolding s using dl by simp
    show "nativeModule e = None
          \<and> fst (downloadStep e model (st, w)) = Inr (localPath e model)
          \<and> fst (snd ?I) = (fst (snd (downloadStep e model (st, w))))\<lparr>isInitializingModel := False\<rparr>
          \<and> modelFiles (fst (snd ?I)) modelId =
              Some \<lparr>path = localPath e model,
                    size_f = (case info_stats e of Info True sz \<Rightarrow> sizeOrZero sz | _ \<Rightarrow> 0)\<rparr>
          \<and> newEvents w (snd (snd ?I)) =
              newEvents w (snd (snd (downloadStep e model (st, w)))) @ [ImportNative]
          \<and> (\<not> existingInfo_exists e \<longrightarrow>
                DownloadAsync (url model) (localPath e model)
                  \<in> set (newEvents w (snd (snd (downloadStep e model (st, w)))))
              \<and> downloadProgress (fst (snd ?I)) modelId = Some 1)"
      unfolding D
      by (rule conjI[OF n conjI[OF ok conjI[OF s conjI[OF m conjI[OF ev dl']]]]])
  qed
  show ?thesis
    by (rule conjI[OF c1 conjI[OF c2 c3]])
qed

theorem initializeWhisperModel_downloads_before_probing_witness:
  "find (\<lambda>m. id_m m = ''base'') WHISPER_MODELS = Some baseModel
   \<and> nativeModule expoGo = None
   \<and> \<not> existingInfo_exists expoGo
   \<and> fst (initializeWhisperModel expoGo ''base'' None (initialState, world0))
       = Inl NativeModuleNotAvailable
   \<and> modelFiles (fst (snd (initializeWhisperModel expoGo ''base'' None (initialState, world0))))
       ''base''
       = Some \<lparr>path = ''file:///data/documents/whisper-models/ggml-base.bin'', size_f = 2000\<rparr>
   \<and> downloadProgress (fst (snd (initializeWhisperModel expoGo ''base'' None
        (initialState, world0)))) ''base'' = Some 1
   \<and> DownloadAsync ''https://huggingface.co/ggerganov/whisper.cpp/resolve/main/ggml-base.bin''
        ''file:///data/documents/whisper-models/ggml-base.bin''
       \<in> set (newEvents world0 (snd (snd (downloadStep expoGo baseModel (initialState, world0)))))
   \<and> last (newEvents world0 (snd (snd (initializeWhisperModel expoGo ''base'' None
        (initialState, world0))))) = ImportNative"
proof -
  have h1: "find (\<lambda>m. id_m m = ''base'') WHISPER_MODELS = Some baseModel"
    by (simp add: WHISPER_MODELS_def baseModel_def)
  have h2: "nativeModule expoGo = None"
    by (simp add: nativeModule_def expoGo_def)
  have h3: "\<not> existingInfo_exists expoGo"
    by (simp add: existingInfo_exists_def expoGo_def device_def)
  have dir: "fst (getModelDirectory expoGo world0) = Inr ''file:///data/documents/whisper-models''"
    by (simp add: getModelDirectory_ok expoGo_def device_def)
  have ok: "transferSucceeded expoGo"
    by (simp add: transferSucceeded_def statusOk_def expoGo_def device_def)
  have p: "localPath expoGo baseModel = ''file:///data/documents/whisper-models/ggml-base.bin''"
    by (simp add: localPath_def documentUri_def expoGo_def device_def documents_def joinUri_def
        baseModel_def WHISPER_MODELS_def)
  have u: "url baseModel
      = ''https://huggingface.co/ggerganov/whisper.cpp/resolve/main/ggml-base.bin''"
    by (simp add: baseModel_def WHISPER_MODELS_def)
  have sz: "info_stats expoGo = Info True (Some 2000)"
    by (simp add: expoGo_def device_def)
  have h4: "fst (downloadStep expoGo baseModel (initialState, world0))
      = Inr (localPath expoGo baseModel)"
    unfolding downloadStep_def
    by (rule downloadModel_shapes[where e=expoGo and w=world0 and model=baseModel
          and st="initialState\<lparr>isInitializingModel := True\<rparr>"])
       (use dir h3 ok p in \<open>auto simp: joinUri_def baseModel_def WHISPER_MODELS_def\<close>)
  note T = initializeWhisperModel_downloads_before_probing[OF h1, of world0 expoGo initialState
      None]
  have f: "fst (initializeWhisperModel expoGo ''base'' None (initialState, world0))
      = Inl NativeModuleNotAvailable"
    using T h2 h4 by blast
  have m: "modelFiles (fst (snd (initializeWhisperModel expoGo ''base'' None
        (initialState, world0)))) ''base''
      = Some \<lparr>path = localPath expoGo baseModel,
                 size_f = (case info_stats expoGo of Info True sz \<Rightarrow> sizeOrZero sz | _ \<Rightarrow> 0)\<rparr>"
    using T f by blast
  have d: "downloadProgress (fst (snd (initializeWhisperModel expoGo ''base'' None
        (initialState, world0)))) ''base'' = Some 1"
    "DownloadAsync (url baseModel) (localPath expoGo baseModel)
       \<in> set (newEvents world0 (snd (snd (downloadStep expoGo baseModel (initialState, world0)))))"
    using T f h3 by blast+
  have l: "newEvents world0 (snd (snd (initializeWhisperModel expoGo ''base'' None
        (initialState, world0))))
      = newEvents world0 (snd (snd (downloadStep expoGo baseModel (initialState, world0))))
          @ [ImportNative]"
    using T f by blast
  show ?thesis
    using h1 h2 h3 f m d by (simp add: l p u sz sizeOrZero_def)
qed

end
